theory Spec2Isabelle
  imports Complex_Main
begin

section \<open>The PM2.5 extractor: data model\<close>

text \<open>
  The program is one script, \<^verbatim>\<open>CKAN_PM25_DataExtractor.py\<close>. Its loop over date ranges
  fetches (or loads from a cache file) the raw records of a window, filters and rescales
  them, restricts them to each area and computes a table of daily and overall statistics.

  A raw record is a JSON object of the remote table. The two fields whose presence the
  script tests (\<^verbatim>\<open>"pm2_5" in df\<close>, \<^verbatim>\<open>"version_major" in df\<close>) are optional here;
  \<open>None\<close> is the field missing from the record, which the data frame shows as NaN;
  a field that is present holds a value of its column's type.
  Numbers are exact rationals (binary floating point is idealised), and a recording
  timestamp is the number of seconds since 1970-01-01T00:00:00 on the recording clock.
\<close>

record raw_record =
  entity_id :: string
  recording_timestamp :: int
  latitude :: rat
  longitude :: rat
  pm2_5 :: "rat option"
  version_major :: "string option"

text \<open>One SQL request of the pagination loop: the window's bounds, LIMIT and OFFSET.\<close>

record query =
  q_start :: string
  q_end :: string
  q_limit :: nat
  q_offset :: nat

text \<open>
  What one \<^verbatim>\<open>requests.get\<close> with \<^verbatim>\<open>raise_for_status\<close> and \<^verbatim>\<open>response.json()\<close> can give:
  \<^item> \<open>TransportFailure\<close>: \<^verbatim>\<open>requests.get\<close> raises (caught by \<^verbatim>\<open>except Exception\<close>);
  \<^item> \<open>HTTPFailure\<close>: \<^verbatim>\<open>raise_for_status\<close> raises \<^verbatim>\<open>HTTPError\<close>;
  \<^item> \<open>BadBody\<close>: the status is fine, the body is no JSON object (\<^verbatim>\<open>response.json()\<close> or
    \<^verbatim>\<open>data.get\<close> raises, outside the inner \<^verbatim>\<open>try\<close>);
  \<^item> \<open>Records rs\<close>: the list under \<^verbatim>\<open>result.records\<close> (empty when the key is missing).
\<close>

datatype response = TransportFailure | HTTPFailure | BadBody | Records "raw_record list"

type_synonym remote = "query \<Rightarrow> response"

datatype error = DecodeError | KeyError | NameError

text \<open>A cache file holds what \<^verbatim>\<open>json.dump\<close> wrote, or something \<^verbatim>\<open>json.load\<close> rejects.\<close>

datatype file_content = JsonRecords "raw_record list" | NotJson

section \<open>Pagination\<close>

definition limit :: nat where
  "limit = 10000"

definition sql_query :: "string \<Rightarrow> string \<Rightarrow> nat \<Rightarrow> query" where
  "sql_query start_date end_date offset =
     \<lparr>q_start = start_date, q_end = end_date, q_limit = limit, q_offset = offset\<rparr>"

text \<open>
  The \<^verbatim>\<open>while True\<close> loop of lines 88-124. The last argument is the log of requests
  issued so far; the result is the value of \<^verbatim>\<open>all_records\<close> at the \<^verbatim>\<open>break\<close> (or the
  exception that leaves the loop) with the extended log. The loop has no bound of its own:
  \<open>None\<close> is the loop that never ends.
\<close>

partial_function (option) fetch_pages ::
  "remote \<Rightarrow> string \<Rightarrow> string \<Rightarrow> nat \<Rightarrow> raw_record list \<Rightarrow> query list
     \<Rightarrow> ((error + raw_record list) \<times> query list) option" where
  "fetch_pages src start_date end_date offset all_records issued =
     (case src (sql_query start_date end_date offset) of
        TransportFailure \<Rightarrow> Some (Inr all_records, issued @ [sql_query start_date end_date offset])
      | HTTPFailure \<Rightarrow> Some (Inr all_records, issued @ [sql_query start_date end_date offset])
      | BadBody \<Rightarrow> Some (Inl DecodeError, issued @ [sql_query start_date end_date offset])
      | Records records \<Rightarrow>
          if records = [] then Some (Inr all_records, issued @ [sql_query start_date end_date offset])
          else fetch_pages src start_date end_date (offset + limit) (all_records @ records)
                 (issued @ [sql_query start_date end_date offset]))"


section \<open>The run's state and the cache\<close>

text \<open>The table of statistics: the \<^verbatim>\<open>Date\<close> column holds a day or the text "Overall",
  a numeric cell a number, NaN, or (after \<^verbatim>\<open>fillna\<close>) the text "missing".\<close>

datatype date_label = Day int | Overall

datatype stat_cell = Num rat | NaN | Missing

record stat_row =
  Date :: date_label
  PM2_5_Average :: stat_cell
  PM2_5_Median :: stat_cell

text \<open>
  What the script's loops read and write: the files of the output folder that hold cached
  windows, the requests sent to the remote table, the list \<^verbatim>\<open>all_stats_sections\<close>, the
  CSV extracts written, and the variables \<^verbatim>\<open>daily_stats\<close> and \<^verbatim>\<open>overall_stats\<close>.
  Python variables assigned in a loop body outlive the iteration, so the two variables
  are part of the state; \<open>None\<close> is a variable not yet bound.
\<close>

record state =
  files :: "string \<rightharpoonup> file_content"
  requests :: "query list"
  all_stats_sections :: "(string \<times> stat_row list) list"
  csv_files :: "(string \<times> raw_record list) list"
  daily_stats :: "stat_row list option"
  overall_stats :: "stat_row list option"

definition output_folder :: string where
  "output_folder = ''data3''"

definition cache_file_path :: "string \<Rightarrow> string \<Rightarrow> string" where
  "cache_file_path start_date end_date =
     output_folder @ ''/'' @ ''api_cache_'' @ start_date @ ''_to_'' @ end_date @ ''.json''"

text \<open>
  Lines 72-129: load the window's cache file when it exists, otherwise run the pagination
  loop and dump its result to the cache file. An exception leaves the block before the
  dump.
\<close>

definition load_records ::
  "remote \<Rightarrow> string \<Rightarrow> string \<Rightarrow> state \<Rightarrow> ((error + raw_record list) \<times> state) option" where
  "load_records src start_date end_date st =
     (case files st (cache_file_path start_date end_date) of
        Some (JsonRecords all_records) \<Rightarrow> Some (Inr all_records, st)
      | Some NotJson \<Rightarrow> Some (Inl DecodeError, st)
      | None \<Rightarrow>
          (case fetch_pages src start_date end_date 0 [] (requests st) of
             None \<Rightarrow> None
           | Some (Inl err, issued) \<Rightarrow> Some (Inl err, st\<lparr>requests := issued\<rparr>)
           | Some (Inr all_records, issued) \<Rightarrow>
               Some (Inr all_records,
                 st\<lparr>files := (files st)(cache_file_path start_date end_date \<mapsto> JsonRecords all_records),
                    requests := issued\<rparr>)))"

section \<open>Filtering and scale correction\<close>

text \<open>
  A data frame is its rows and its column labels. Of the labels only the two that the
  script tests matter: a column exists when some record of the list has the field.
  Row selection keeps the columns.
\<close>

record dataframe =
  col_pm2_5 :: bool
  col_version_major :: bool
  rows :: "raw_record list"

definition DataFrame :: "raw_record list \<Rightarrow> dataframe" where
  "DataFrame all_records =
     \<lparr>col_pm2_5 = (\<exists>r \<in> set all_records. pm2_5 r \<noteq> None),
      col_version_major = (\<exists>r \<in> set all_records. version_major r \<noteq> None),
      rows = all_records\<rparr>"

definition df_empty :: "dataframe \<Rightarrow> bool" where
  "df_empty df \<longleftrightarrow> rows df = []"

text \<open>Line 136: NaN compares false, so a row without a value is dropped.\<close>

definition in_range :: "raw_record \<Rightarrow> bool" where
  "in_range r = (case pm2_5 r of None \<Rightarrow> False | Some v \<Rightarrow> 0 < v \<and> v \<le> 10000)"

definition range_filter :: "dataframe \<Rightarrow> dataframe" where
  "range_filter df =
     (if \<not> df_empty df \<and> col_pm2_5 df then df\<lparr>rows := filter in_range (rows df)\<rparr> else df)"

text \<open>Line 138: \<^verbatim>\<open>df.loc[df["version_major"] == "1", "pm2_5"] *= 100\<close>.\<close>

definition times_100 :: "raw_record \<Rightarrow> raw_record" where
  "times_100 r =
     (if version_major r = Some ''1'' then r\<lparr>pm2_5 := map_option (\<lambda>v. v * 100) (pm2_5 r)\<rparr> else r)"

definition scale_correction :: "dataframe \<Rightarrow> dataframe" where
  "scale_correction df =
     (if \<not> df_empty df \<and> col_version_major df \<and> col_pm2_5 df
      then df\<lparr>rows := map times_100 (rows df)\<rparr> else df)"

definition normalize_records :: "raw_record list \<Rightarrow> dataframe" where
  "normalize_records all_records = scale_correction (range_filter (DataFrame all_records))"

section \<open>Spatial filter\<close>

text \<open>
  A polygon is the set of points strictly inside it, as \<^verbatim>\<open>within\<close> of the geometry library
  decides it; a point is (longitude, latitude). Reading an area's file fails, or gives the
  geometries of the file, of which the first is used.
\<close>

type_synonym polygon = "rat \<times> rat \<Rightarrow> bool"

datatype geojson = Unreadable | Shapes "polygon list"

definition within_polygon :: "dataframe \<Rightarrow> polygon \<Rightarrow> dataframe" where
  "within_polygon gdf polygon =
     gdf\<lparr>rows := filter (\<lambda>r. polygon (longitude r, latitude r)) (rows gdf)\<rparr>"


section \<open>Calendar days\<close>

text \<open>
  The window bounds are texts such as \<^verbatim>\<open>2022-04-01\<close>. They are used literally in the
  query and in file names, and parsed by \<^verbatim>\<open>pd.date_range\<close>. The parser here reads the
  form YYYY-MM-DD, the one the script's configuration uses, to the number of days since
  1970-01-01; any other text is a parse error.
\<close>

definition digit :: "char \<Rightarrow> nat option" where
  "digit c =
     (let code = (of_char c :: nat) in
      if 48 \<le> code \<and> code \<le> 57 then Some (code - 48) else None)"

fun number :: "nat \<Rightarrow> string \<Rightarrow> nat option" where
  "number acc [] = Some acc"
| "number acc (c # cs) =
     (case digit c of None \<Rightarrow> None | Some d \<Rightarrow> number (10 * acc + d) cs)"

definition is_leap :: "nat \<Rightarrow> bool" where
  "is_leap y \<longleftrightarrow> (y mod 4 = 0 \<and> y mod 100 \<noteq> 0) \<or> y mod 400 = 0"

definition days_in_month :: "nat \<Rightarrow> nat \<Rightarrow> nat" where
  "days_in_month y m =
     (if m = 2 then (if is_leap y then 29 else 28)
      else if m = 4 \<or> m = 6 \<or> m = 9 \<or> m = 11 then 30 else 31)"

definition days_from_civil :: "int \<Rightarrow> int \<Rightarrow> int \<Rightarrow> int" where
  "days_from_civil y m d =
     (let y' = (if m \<le> 2 then y - 1 else y);
          era = y' div 400;
          yoe = y' - era * 400;
          doy = (153 * (if m > 2 then m - 3 else m + 9) + 2) div 5 + d - 1;
          doe = yoe * 365 + yoe div 4 - yoe div 100 + doy
      in era * 146097 + doe - 719468)"

definition parse_date :: "string \<Rightarrow> int option" where
  "parse_date s =
     (if length s = 10 \<and> s ! 4 = CHR ''-'' \<and> s ! 7 = CHR ''-'' then
        (case (number 0 (take 4 s), number 0 (take 2 (drop 5 s)), number 0 (drop 8 s)) of
           (Some y, Some m, Some d) \<Rightarrow>
             if 1 \<le> m \<and> m \<le> 12 \<and> 1 \<le> d \<and> d \<le> days_in_month y m
             then Some (days_from_civil (int y) (int m) (int d)) else None
         | _ \<Rightarrow> None)
      else None)"

text \<open>\<^verbatim>\<open>pd.date_range(start, end, freq="D")\<close>: every day from start to end, none when
  end is before start.\<close>

definition date_range :: "int \<Rightarrow> int \<Rightarrow> int list" where
  "date_range s e = [s..e]"

definition day_of :: "raw_record \<Rightarrow> int" where
  "day_of r = recording_timestamp r div 86400"

section \<open>Daily and overall statistics\<close>

text \<open>Mean and median of a column skip NaN and are NaN on no values.\<close>

definition column_pm2_5 :: "raw_record list \<Rightarrow> rat list" where
  "column_pm2_5 rs = List.map_filter pm2_5 rs"

definition mean :: "rat list \<Rightarrow> rat option" where
  "mean vs = (if vs = [] then None else Some (sum_list vs / of_nat (length vs)))"

definition median :: "rat list \<Rightarrow> rat option" where
  "median vs =
     (if vs = [] then None
      else let sorted_vs = sort vs; n = length vs in
        if odd n then Some (sorted_vs ! (n div 2))
        else Some ((sorted_vs ! (n div 2 - 1) + sorted_vs ! (n div 2)) / 2))"

definition cell_of :: "rat option \<Rightarrow> stat_cell" where
  "cell_of x = (case x of None \<Rightarrow> NaN | Some v \<Rightarrow> Num v)"

definition cell_map :: "(rat \<Rightarrow> rat) \<Rightarrow> stat_cell \<Rightarrow> stat_cell" where
  "cell_map f c = (case c of Num v \<Rightarrow> Num (f v) | NaN \<Rightarrow> NaN | Missing \<Rightarrow> Missing)"

text \<open>
  \<^verbatim>\<open>round(2)\<close> works on the binary floating point number that stands for the value:
  it is \<^verbatim>\<open>rint(x * 100) / 100\<close>. A value that is not halfway between two hundredths
  goes to the nearer one. A value that is halfway has no rule in terms of the value
  alone: 1.015 is stored just below the middle and becomes 1.01, while 0.125 is stored
  exactly and goes to the even 0.12. The exact rationals of this model do not show the
  binary form, so the direction taken at a halfway value is a parameter, \<open>half_up\<close>, of
  the rounding and of everything that rounds; the properties below hold for each
  direction.
\<close>

type_synonym half_rule = "rat \<Rightarrow> bool"

definition round2 :: "half_rule \<Rightarrow> rat \<Rightarrow> rat" where
  "round2 half_up x =
     (let q = x * 100; f = \<lfloor>q\<rfloor>; d = q - of_int f in
      of_int (if d < 1 / 2 then f else if 1 / 2 < d then f + 1
              else if half_up x then f + 1 else f) / 100)"

definition fillna_missing :: "stat_cell \<Rightarrow> stat_cell" where
  "fillna_missing c = (case c of NaN \<Rightarrow> Missing | _ \<Rightarrow> c)"

text \<open>
  Lines 174-180: \<^verbatim>\<open>resample("D").agg({"pm2_5": ["mean", "median"]})\<close> gives one row for
  each day from the earliest to the latest day of the records, NaN on a day without
  records.
\<close>

definition day_row :: "raw_record list \<Rightarrow> int \<Rightarrow> stat_row" where
  "day_row rs d =
     \<lparr>Date = Day d,
      PM2_5_Average = cell_of (mean (column_pm2_5 (filter (\<lambda>r. day_of r = d) rs))),
      PM2_5_Median = cell_of (median (column_pm2_5 (filter (\<lambda>r. day_of r = d) rs)))\<rparr>"

definition resample_D :: "raw_record list \<Rightarrow> stat_row list" where
  "resample_D rs =
     (if rs = [] then []
      else map (day_row rs)
             [fold min (map day_of rs) (day_of (hd rs)) .. fold max (map day_of rs) (day_of (hd rs))])"

text \<open>Lines 186-190: \<^verbatim>\<open>set_index("Date").reindex(date_range)\<close>, a row of NaN for a day
  the table does not have.\<close>

definition reindex :: "stat_row list \<Rightarrow> int list \<Rightarrow> stat_row list" where
  "reindex tbl idx =
     map (\<lambda>d. case find (\<lambda>row. Date row = Day d) tbl of
                Some row \<Rightarrow> row
              | None \<Rightarrow> \<lparr>Date = Day d, PM2_5_Average = NaN, PM2_5_Median = NaN\<rparr>) idx"

definition on_stats :: "(stat_cell \<Rightarrow> stat_cell) \<Rightarrow> stat_row \<Rightarrow> stat_row" where
  "on_stats f row =
     row\<lparr>PM2_5_Average := f (PM2_5_Average row), PM2_5_Median := f (PM2_5_Median row)\<rparr>"

text \<open>
  The \<^verbatim>\<open>try\<close> block of lines 172-203. Without a \<^verbatim>\<open>pm2_5\<close> column \<^verbatim>\<open>agg\<close> raises before
  \<^verbatim>\<open>daily_stats\<close> is assigned; a window bound that does not parse raises in
  \<^verbatim>\<open>pd.date_range\<close>, after the assignment of line 174. The handler prints and goes on.
\<close>

definition daily_stats_block ::
  "half_rule \<Rightarrow> dataframe \<Rightarrow> string \<Rightarrow> string \<Rightarrow> state \<Rightarrow> state" where
  "daily_stats_block half_up gdf_within_geojson start_date end_date st =
     (if \<not> col_pm2_5 gdf_within_geojson then st
      else
        (case (parse_date start_date, parse_date end_date) of
           (Some s, Some e) \<Rightarrow>
             st\<lparr>daily_stats := Some
               (map (on_stats fillna_missing)
                 (map (on_stats (cell_map (round2 half_up)))
                   (map (on_stats (cell_map (\<lambda>v. v / 100)))
                     (reindex (resample_D (rows gdf_within_geojson)) (date_range s e)))))\<rparr>
         | _ \<Rightarrow> st\<lparr>daily_stats := Some (resample_D (rows gdf_within_geojson))\<rparr>))"

text \<open>The \<^verbatim>\<open>try\<close> block of lines 206-223.\<close>

definition overall_row :: "half_rule \<Rightarrow> raw_record list \<Rightarrow> stat_row" where
  "overall_row half_up rs =
     \<lparr>Date = Overall,
      PM2_5_Average =
        cell_map (round2 half_up) (cell_map (\<lambda>v. v / 100) (cell_of (mean (column_pm2_5 rs)))),
      PM2_5_Median =
        cell_map (round2 half_up) (cell_map (\<lambda>v. v / 100) (cell_of (median (column_pm2_5 rs))))\<rparr>"

definition overall_stats_block :: "half_rule \<Rightarrow> dataframe \<Rightarrow> state \<Rightarrow> state" where
  "overall_stats_block half_up gdf_within_geojson st =
     (if \<not> col_pm2_5 gdf_within_geojson then st
      else st\<lparr>overall_stats := Some [overall_row half_up (rows gdf_within_geojson)]\<rparr>)"


section \<open>Locations, windows and the run\<close>

text \<open>A location is its name and what \<^verbatim>\<open>gpd.read_file\<close> gives for its file.\<close>

type_synonym location = "string \<times> geojson"

definition section_label :: "string \<Rightarrow> string \<Rightarrow> string \<Rightarrow> string" where
  "section_label location_name start_date end_date =
     location_name @ '' ('' @ start_date @ '' to '' @ end_date @ '')''"

definition csv_file_path :: "string \<Rightarrow> string \<Rightarrow> string \<Rightarrow> string" where
  "csv_file_path location_name start_date end_date =
     output_folder @ ''/'' @ location_name @ ''_data_'' @ start_date @ ''_to_'' @ end_date @ ''.csv''"

text \<open>The \<^verbatim>\<open>try\<close> block of lines 236-261; the writer itself is outside this model.\<close>

definition save_block :: "dataframe \<Rightarrow> string \<Rightarrow> string \<Rightarrow> string \<Rightarrow> state \<Rightarrow> state" where
  "save_block gdf_within_geojson location_name start_date end_date st =
     (if \<not> col_pm2_5 gdf_within_geojson then st
      else st\<lparr>csv_files := csv_files st @
             [(csv_file_path location_name start_date end_date,
               map (\<lambda>r. r\<lparr>pm2_5 := map_option (\<lambda>v. v / 100) (pm2_5 r)\<rparr>)
                 (rows gdf_within_geojson))]\<rparr>)"

text \<open>
  One pass of the loop over locations, lines 150-261. The result is the exception that
  leaves the pass, if any, and the state at that point. An unreadable file and an area
  without records \<^verbatim>\<open>continue\<close>; a file without a geometry raises at line 158; the two
  statistics blocks handle their own errors and fall through to \<^verbatim>\<open>pd.concat\<close>, which
  reads the variables \<^verbatim>\<open>daily_stats\<close> and \<^verbatim>\<open>overall_stats\<close> as they are then.
\<close>

definition process_location ::
  "half_rule \<Rightarrow> dataframe \<Rightarrow> string \<Rightarrow> string \<Rightarrow> location \<Rightarrow> state
     \<Rightarrow> error option \<times> state" where
  "process_location half_up gdf start_date end_date loc st =
     (case snd loc of
        Unreadable \<Rightarrow> (None, st)
      | Shapes [] \<Rightarrow> (Some KeyError, st)
      | Shapes (polygon # _) \<Rightarrow>
          let gdf_within_geojson = within_polygon gdf polygon in
          if df_empty gdf_within_geojson then (None, st)
          else
            let st1 = daily_stats_block half_up gdf_within_geojson start_date end_date st;
                st2 = overall_stats_block half_up gdf_within_geojson st1
            in (case (daily_stats st2, overall_stats st2) of
                  (Some daily, Some overall) \<Rightarrow>
                    (None,
                     save_block gdf_within_geojson (fst loc) start_date end_date
                       (st2\<lparr>all_stats_sections := all_stats_sections st2 @
                              [(section_label (fst loc) start_date end_date, daily @ overall)]\<rparr>))
                | _ \<Rightarrow> (Some NameError, st2)))"

fun process_locations ::
  "half_rule \<Rightarrow> dataframe \<Rightarrow> string \<Rightarrow> string \<Rightarrow> location list \<Rightarrow> state
     \<Rightarrow> error option \<times> state" where
  "process_locations half_up gdf start_date end_date [] st = (None, st)"
| "process_locations half_up gdf start_date end_date (loc # locs) st =
     (case process_location half_up gdf start_date end_date loc st of
        (Some err, st') \<Rightarrow> (Some err, st')
      | (None, st') \<Rightarrow> process_locations half_up gdf start_date end_date locs st')"

text \<open>The body of the \<^verbatim>\<open>try\<close> of lines 71-261 for one date range.\<close>

definition window_body ::
  "half_rule \<Rightarrow> remote \<Rightarrow> location list \<Rightarrow> string \<times> string \<Rightarrow> state
     \<Rightarrow> (error option \<times> state) option" where
  "window_body half_up src geojson_files w st =
     (case load_records src (fst w) (snd w) st of
        None \<Rightarrow> None
      | Some (Inl err, st') \<Rightarrow> Some (Some err, st')
      | Some (Inr all_records, st') \<Rightarrow>
          let df = normalize_records all_records in
          if df_empty df then Some (None, st')
          else Some (process_locations half_up df (fst w) (snd w) geojson_files st'))"

text \<open>The handler of lines 263-267 prints the exception and the loop goes on.\<close>

definition process_window ::
  "half_rule \<Rightarrow> remote \<Rightarrow> location list \<Rightarrow> string \<times> string \<Rightarrow> state \<Rightarrow> state option" where
  "process_window half_up src geojson_files w st =
     map_option snd (window_body half_up src geojson_files w st)"

fun run_windows ::
  "half_rule \<Rightarrow> remote \<Rightarrow> location list \<Rightarrow> (string \<times> string) list \<Rightarrow> state
     \<Rightarrow> state option" where
  "run_windows half_up src geojson_files [] st = Some st"
| "run_windows half_up src geojson_files (w # ws) st =
     (case process_window half_up src geojson_files w st of
        None \<Rightarrow> None
      | Some st' \<Rightarrow> run_windows half_up src geojson_files ws st')"

definition date_ranges :: "(string \<times> string) list" where
  "date_ranges =
     [(''2022-04-01'', ''2022-05-31''), (''2023-04-01'', ''2023-05-31''),
      (''2024-04-01'', ''2024-05-31'')]"

text \<open>A run starts with the files it finds, no request sent, an empty summary list and
  both variables unbound.\<close>

definition initial_state :: "(string \<rightharpoonup> file_content) \<Rightarrow> state" where
  "initial_state fs =
     \<lparr>files = fs, requests = [], all_stats_sections = [], csv_files = [],
      daily_stats = None, overall_stats = None\<rparr>"

section \<open>Sample inputs\<close>

text \<open>Records used to run the definitions: all at longitude 5, latitude 52, on the
  days 2022-04-01 (day 19083) to 2022-04-10.\<close>

definition sample :: "string \<Rightarrow> int \<Rightarrow> rat option \<Rightarrow> string option \<Rightarrow> raw_record" where
  "sample name ts v ver =
     \<lparr>entity_id = name, recording_timestamp = ts, latitude = 52, longitude = 5,
      pm2_5 = v, version_major = ver\<rparr>"

definition legacy_record :: raw_record where
  "legacy_record = sample ''legacy'' 1648807200 (Some 200) (Some ''1'')"

definition current_record :: raw_record where
  "current_record = sample ''current'' 1648807200 (Some 500) (Some ''2'')"

definition high_record :: raw_record where
  "high_record = sample ''high'' 1648807200 (Some 20000) (Some ''2'')"

section \<open>Notions for stating the properties of the pagination loop\<close>

text \<open>The answer to the request for page \<open>i\<close> (counted from 0) of a window, the records
  of an answer, whether the loop goes on after an answer, and the records and requests
  of the pages \<open>j\<close> to \<open>k - 1\<close>.\<close>

definition page :: "remote \<Rightarrow> string \<Rightarrow> string \<Rightarrow> nat \<Rightarrow> response" where
  "page src start_date end_date i = src (sql_query start_date end_date (i * limit))"

definition records_of :: "response \<Rightarrow> raw_record list" where
  "records_of resp = (case resp of Records records \<Rightarrow> records | _ \<Rightarrow> [])"

definition goes_on :: "response \<Rightarrow> bool" where
  "goes_on resp = (case resp of Records records \<Rightarrow> records \<noteq> [] | _ \<Rightarrow> False)"

definition pages_upto :: "remote \<Rightarrow> string \<Rightarrow> string \<Rightarrow> nat \<Rightarrow> nat \<Rightarrow> raw_record list" where
  "pages_upto src start_date end_date j k =
     concat (map (\<lambda>i. records_of (page src start_date end_date i)) [j..<k])"

definition queries_upto :: "string \<Rightarrow> string \<Rightarrow> nat \<Rightarrow> nat \<Rightarrow> query list" where
  "queries_upto start_date end_date j k =
     map (\<lambda>i. sql_query start_date end_date (i * limit)) [j..<k]"

text \<open>Remote tables: two full pages, a page of 3000 records and then empty pages; a full
  page and then a transport error; a page of two records and then an HTTP error; no
  records at all.\<close>

definition three_page_source :: remote where
  "three_page_source q =
     (if q_offset q = 0 \<or> q_offset q = 10000 then Records (replicate 10000 current_record)
      else if q_offset q = 20000 then Records (replicate 3000 current_record)
      else Records [])"

definition broken_source :: remote where
  "broken_source q =
     (if q_offset q = 0 then Records (replicate 10000 current_record) else TransportFailure)"

definition short_broken_source :: remote where
  "short_broken_source q =
     (if q_offset q = 0 then Records [legacy_record, current_record] else HTTPFailure)"

definition empty_source :: remote where
  "empty_source q = Records []"

section \<open>Notions for stating the properties of the statistics table\<close>

text \<open>A row of the daily table as lines 193-200 leave it: divided by 100, rounded, NaN
  replaced by the missing marker.\<close>

definition shown :: "half_rule \<Rightarrow> stat_row \<Rightarrow> stat_row" where
  "shown half_up row =
     on_stats fillna_missing
       (on_stats (cell_map (round2 half_up)) (on_stats (cell_map (\<lambda>v. v / 100)) row))"

text \<open>The records of the specification's scenario for the window 2022-04-01 to
  2022-04-03, a record of 2022-04-10, and a record without a pm2_5 field.\<close>

definition scenario_records :: "raw_record list" where
  "scenario_records =
     [sample ''a'' 1648807200 (Some 500) (Some ''2''),
      sample ''b'' 1648810800 (Some 1500) (Some ''2''),
      sample ''c'' 1648951200 (Some 1000) (Some ''2'')]"

definition late_record :: raw_record where
  "late_record = sample ''late'' 1649548800 (Some 1500) (Some ''2'')"

definition bare_record :: raw_record where
  "bare_record = sample ''bare'' 1680343200 None (Some ''2'')"

text \<open>A direction for halfway values, to run the definitions: to the even hundredth.
  The sample values are not halfway, so their results do not depend on it.\<close>

definition to_even :: half_rule where
  "to_even x \<longleftrightarrow> odd \<lfloor>x * 100\<rfloor>"

definition everywhere :: polygon where
  "everywhere p = True"

definition highfive_area :: location where
  "highfive_area = (''highfive_area'', Shapes [everywhere])"

text \<open>Cache files of an earlier run: a record with a value for the window of 2022, one
  without the pm2_5 field for the window of 2023, no record for the window of 2024.\<close>

definition earlier_cache :: "string \<rightharpoonup> file_content" where
  "earlier_cache =
     [cache_file_path ''2022-04-01'' ''2022-05-31'' \<mapsto> JsonRecords [current_record],
      cache_file_path ''2023-04-01'' ''2023-05-31'' \<mapsto> JsonRecords [bare_record],
      cache_file_path ''2024-04-01'' ''2024-05-31'' \<mapsto> JsonRecords []]"

text \<open>What the run over the script's date ranges leaves in \<^verbatim>\<open>all_stats_sections\<close> when it
  starts from these cache files, with one area that holds every point.\<close>

definition earlier_summary :: "(string \<times> stat_row list) list" where
  "earlier_summary =
     (case run_windows to_even empty_source [highfive_area] date_ranges
             (initial_state earlier_cache) of
        Some st \<Rightarrow> all_stats_sections st
      | None \<Rightarrow> [])"

section \<open>Properties of filtering and scale correction\<close>

lemma rows_range_filter:
  "rows (range_filter (DataFrame rs)) =
     (if col_pm2_5 (DataFrame rs) then filter in_range rs else rs)"
  by (auto simp: range_filter_def df_empty_def DataFrame_def)

lemma cols_range_filter:
  "col_pm2_5 (range_filter df) = col_pm2_5 df"
  "col_version_major (range_filter df) = col_version_major df"
  by (simp_all add: range_filter_def)

lemma times_100_id: "version_major r \<noteq> Some ''1'' \<or> pm2_5 r = None \<Longrightarrow> times_100 r = r"
  by (auto simp: times_100_def)

lemma set_rows_range_filter: "set (rows (range_filter (DataFrame rs))) \<subseteq> set rs"
  by (auto simp: rows_range_filter)

text \<open>The guards of line 137 do not matter: where one of them fails, no row has both
  a version "1" and a value.\<close>

lemma rows_normalize:
  "rows (normalize_records rs) = map times_100 (rows (range_filter (DataFrame rs)))"
proof (cases "col_version_major (DataFrame rs) \<and> col_pm2_5 (DataFrame rs)")
  case True
  then show ?thesis
    by (simp add: normalize_records_def scale_correction_def df_empty_def cols_range_filter)
next
  case False
  have "times_100 r = r" if "r \<in> set (rows (range_filter (DataFrame rs)))" for r
  proof -
    from that have "r \<in> set rs" using set_rows_range_filter by blast
    with False have "version_major r = None \<or> pm2_5 r = None"
      by (auto simp: DataFrame_def)
    then show ?thesis by (auto intro: times_100_id)
  qed
  then have "map times_100 (rows (range_filter (DataFrame rs))) = rows (range_filter (DataFrame rs))"
    by (simp add: map_idI)
  with False show ?thesis
    by (auto simp add: normalize_records_def scale_correction_def cols_range_filter)
qed

lemma cols_normalize: "col_pm2_5 (normalize_records rs) = col_pm2_5 (DataFrame rs)"
  by (simp add: normalize_records_def scale_correction_def range_filter_def)

lemma col_pm2_5_DataFrame: "col_pm2_5 (DataFrame rs) \<longleftrightarrow> (\<exists>r \<in> set rs. pm2_5 r \<noteq> None)"
  by (simp add: DataFrame_def)

lemma rows_within_polygon: "set (rows (within_polygon gdf polygon)) \<subseteq> set (rows gdf)"
  by (auto simp: within_polygon_def)

lemma normalized_bound:
  assumes "r \<in> set (rows (normalize_records rs))" and "pm2_5 r = Some v"
  shows "0 < v \<and> v \<le> (if version_major r = Some ''1'' then 1000000 else 10000)"
proof -
  from assms(1) obtain r0
    where r0: "r0 \<in> set (rows (range_filter (DataFrame rs)))" "r = times_100 r0"
    by (auto simp: rows_normalize)
  from assms(2) r0(2) have nn: "pm2_5 r0 \<noteq> None"
    by (auto simp: times_100_def split: if_splits)
  from r0(1) have "r0 \<in> set rs" using set_rows_range_filter by blast
  with nn have "col_pm2_5 (DataFrame rs)" by (auto simp: DataFrame_def)
  with r0(1) have "in_range r0" by (simp add: rows_range_filter)
  then obtain u where u: "pm2_5 r0 = Some u" "0 < u" "u \<le> 10000"
    by (auto simp: in_range_def split: option.splits)
  show ?thesis using u r0(2) assms(2) by (auto simp: times_100_def split: if_splits)
qed

text \<open>
  C1 (as stated): every record that survives the range filter and the scale correction
  has \<open>0 < pm2_5 \<le> 10000\<close>. This fails: the range filter runs before the scale
  correction, so the version "1" record with the value 200 passes the filter and leaves
  normalization with the value 20000.
\<close>

theorem normalized_pm2_5_above_bound:
  "map pm2_5 (rows (normalize_records [legacy_record])) = [Some 20000]
   \<and> \<not> (20000 :: rat) \<le> 10000"
  by (simp add: normalize_records_def scale_correction_def range_filter_def DataFrame_def
      df_empty_def in_range_def times_100_def legacy_record_def sample_def)

text \<open>
  C1 (amended): every record that survives normalization and carries a pm2_5 value has
  \<open>0 < pm2_5\<close>, with \<open>pm2_5 \<le> 10000\<close> when its version_major is not "1" and
  \<open>pm2_5 \<le> 1000000\<close> when it is "1"; the records inside an area are among the
  normalized ones, so the same bounds hold after the spatial filter.
\<close>

theorem normalized_pm2_5_bounds:
  assumes "r \<in> set (rows (normalize_records rs))
           \<or> r \<in> set (rows (within_polygon (normalize_records rs) polygon))"
    and "pm2_5 r = Some v"
  shows "0 < v \<and> v \<le> (if version_major r = Some ''1'' then 1000000 else 10000)"
proof -
  from assms(1) have "r \<in> set (rows (normalize_records rs))"
    using rows_within_polygon by blast
  then show ?thesis using assms(2) by (rule normalized_bound)
qed

theorem normalized_pm2_5_bounds_witness:
  "legacy_record\<lparr>pm2_5 := Some 20000\<rparr>
     \<in> set (rows (within_polygon (normalize_records [legacy_record, current_record, high_record])
                (\<lambda>p. True)))
   \<and> (0 :: rat) < 20000 \<and> (20000 :: rat) \<le> 1000000"
proof -
  have m: "legacy_record\<lparr>pm2_5 := Some 20000\<rparr>
      \<in> set (rows (within_polygon (normalize_records [legacy_record, current_record, high_record])
                (\<lambda>p. True)))"
    by (simp add: within_polygon_def normalize_records_def scale_correction_def range_filter_def
        DataFrame_def df_empty_def in_range_def times_100_def legacy_record_def
        current_record_def high_record_def sample_def)
  have v: "pm2_5 (legacy_record\<lparr>pm2_5 := Some 20000\<rparr>) = Some 20000" by simp
  have "version_major (legacy_record\<lparr>pm2_5 := Some 20000\<rparr>) = Some ''1''"
    by (simp add: legacy_record_def sample_def)
  with normalized_pm2_5_bounds [OF disjI2 [OF m] v] m show ?thesis by simp
qed

text \<open>
  C6: normalization keeps the rows that pass the range filter, in order, and maps the
  pm2_5 value \<open>v\<close> of each to \<open>v * 100\<close> when the record's version_major is "1" and to
  \<open>v\<close> otherwise; nothing else of a record changes.
\<close>

theorem scale_correction_by_version:
  "rows (normalize_records rs) =
     map (\<lambda>r. r\<lparr>pm2_5 := (if version_major r = Some ''1''
                            then map_option (\<lambda>v. v * 100) (pm2_5 r) else pm2_5 r)\<rparr>)
       (if (\<exists>r \<in> set rs. pm2_5 r \<noteq> None) then filter in_range rs else rs)"
proof -
  have "times_100 = (\<lambda>r. r\<lparr>pm2_5 := (if version_major r = Some ''1''
                            then map_option (\<lambda>v. v * 100) (pm2_5 r) else pm2_5 r)\<rparr>)"
    by (rule ext) (simp add: times_100_def)
  then show ?thesis
    by (simp only: rows_normalize rows_range_filter col_pm2_5_DataFrame)
qed

theorem scale_correction_by_version_witness:
  "map pm2_5 (rows (normalize_records [legacy_record, current_record, high_record]))
     = [Some 20000, Some 500]"
  using scale_correction_by_version [of "[legacy_record, current_record, high_record]"]
  by (simp add: in_range_def legacy_record_def current_record_def high_record_def sample_def)

section \<open>Properties of the pagination loop\<close>

lemma fetch_pages_step:
  assumes "goes_on (page src s e j)"
  shows "fetch_pages src s e (j * limit) acc issued =
         fetch_pages src s e (Suc j * limit) (acc @ records_of (page src s e j))
           (issued @ [sql_query s e (j * limit)])"
  using assms
  by (subst fetch_pages.simps) (auto simp: goes_on_def page_def records_of_def add.commute split: response.splits)

lemma fetch_pages_prefix:
  assumes "\<forall>i. j \<le> i \<and> i < k \<longrightarrow> goes_on (page src s e i)" "j \<le> k"
  shows "fetch_pages src s e (j * limit) acc issued =
         fetch_pages src s e (k * limit) (acc @ pages_upto src s e j k) (issued @ queries_upto s e j k)"
  using assms
proof (induction k)
  case 0
  then show ?case by (simp add: pages_upto_def queries_upto_def)
next
  case (Suc k)
  show ?case
  proof (cases "j = Suc k")
    case True
    then show ?thesis by (simp add: pages_upto_def queries_upto_def)
  next
    case False
    with Suc.prems have jk: "j \<le> k" by simp
    from Suc.prems have "\<forall>i. j \<le> i \<and> i < k \<longrightarrow> goes_on (page src s e i)" by simp
    with Suc.IH jk have "fetch_pages src s e (j * limit) acc issued =
         fetch_pages src s e (k * limit) (acc @ pages_upto src s e j k) (issued @ queries_upto s e j k)"
      by blast
    also have "\<dots> = fetch_pages src s e (Suc k * limit)
         ((acc @ pages_upto src s e j k) @ records_of (page src s e k))
         ((issued @ queries_upto s e j k) @ [sql_query s e (k * limit)])"
      using Suc.prems jk by (intro fetch_pages_step) simp
    finally show ?thesis using jk by (simp add: pages_upto_def queries_upto_def)
  qed
qed

lemma fetch_pages_stop:
  assumes "\<not> goes_on (page src s e k)"
  shows "fetch_pages src s e (k * limit) acc issued =
         Some (if page src s e k = BadBody then Inl DecodeError else Inr acc,
               issued @ [sql_query s e (k * limit)])"
  using assms
  by (subst fetch_pages.simps) (auto simp: goes_on_def page_def split: response.splits)

lemma fetch_pages_first_stop:
  assumes "\<forall>i<k. goes_on (page src s e i)" "\<not> goes_on (page src s e k)"
  shows "fetch_pages src s e 0 [] issued =
         Some (if page src s e k = BadBody then Inl DecodeError else Inr (pages_upto src s e 0 k),
               issued @ queries_upto s e 0 (Suc k))"
proof -
  have "fetch_pages src s e (0 * limit) [] issued =
        fetch_pages src s e (k * limit) ([] @ pages_upto src s e 0 k) (issued @ queries_upto s e 0 k)"
    using assms(1) by (intro fetch_pages_prefix) auto
  then show ?thesis using fetch_pages_stop[OF assms(2)] by (simp add: queries_upto_def)
qed

lemma fetch_pages_Some_stops:
  assumes "fetch_pages src s e off acc issued = Some y"
  shows "\<exists>n. \<not> goes_on (src (sql_query s e (off + n * limit)))"
  using assms
proof (induct rule: fetch_pages.raw_induct[rotated -1, consumes 1, case_names step])
  case (step fetch_pages src start_date end_date offset all_records issued y)
  show ?case
  proof (cases "goes_on (src (sql_query start_date end_date offset))")
    case False
    then have "\<not> goes_on (src (sql_query start_date end_date (offset + 0 * limit)))" by simp
    then show ?thesis by blast
  next
    case True
    then obtain records where r: "src (sql_query start_date end_date offset) = Records records" "records \<noteq> []"
      by (auto simp: goes_on_def split: response.splits)
    with step(2) have "fetch_pages src start_date end_date (offset + limit) (all_records @ records)
        (issued @ [sql_query start_date end_date offset]) = Some y" by simp
    from step(1)[OF this] obtain n where "\<not> goes_on (src (sql_query start_date end_date (offset + limit + n * limit)))" by blast
    then have "\<not> goes_on (src (sql_query start_date end_date (offset + Suc n * limit)))" by (simp add: ac_simps)
    then show ?thesis by blast
  qed
qed

lemma fetch_pages_forever:
  assumes "\<forall>i. goes_on (page src s e i)"
  shows "fetch_pages src s e 0 [] issued = None"
proof (cases "fetch_pages src s e 0 [] issued")
  case (Some y)
  from fetch_pages_Some_stops[OF this] assms show ?thesis by (auto simp: page_def)
qed simp


lemma fetch_pages_failure:
  assumes "\<forall>i<n. goes_on (page src s e i)"
    and "page src s e n = TransportFailure \<or> page src s e n = HTTPFailure"
  shows "fetch_pages src s e 0 [] issued =
         Some (Inr (pages_upto src s e 0 n), issued @ queries_upto s e 0 (Suc n))"
proof -
  from assms(2) have "\<not> goes_on (page src s e n)" "page src s e n \<noteq> BadBody"
    by (auto simp: goes_on_def)
  with fetch_pages_first_stop [OF assms(1), of issued] show ?thesis by simp
qed

lemma fetch_pages_empty_page:
  assumes "\<forall>i<n. goes_on (page src s e i)" and "page src s e n = Records []"
  shows "fetch_pages src s e 0 [] issued =
         Some (Inr (pages_upto src s e 0 n), issued @ queries_upto s e 0 (Suc n))"
proof -
  from assms(2) have "\<not> goes_on (page src s e n)" "page src s e n \<noteq> BadBody"
    by (auto simp: goes_on_def)
  with fetch_pages_first_stop [OF assms(1), of issued] show ?thesis by simp
qed

lemma first_stop_exists:
  assumes "\<not> goes_on (page src s e m)"
  shows "\<exists>k. \<not> goes_on (page src s e k) \<and> (\<forall>i<k. goes_on (page src s e i))"
proof -
  let ?k = "LEAST k. \<not> goes_on (page src s e k)"
  have "\<not> goes_on (page src s e ?k)" using assms by (rule LeastI)
  moreover have "\<forall>i<?k. goes_on (page src s e i)" using not_less_Least by blast
  ultimately show ?thesis by blast
qed

lemma three_pages:
  "page three_page_source s e 0 = Records (replicate 10000 current_record)"
  "page three_page_source s e (Suc 0) = Records (replicate 10000 current_record)"
  "page three_page_source s e 2 = Records (replicate 3000 current_record)"
  "page three_page_source s e 3 = Records []"
  by (simp_all add: page_def three_page_source_def sql_query_def limit_def)

lemma three_pages_go_on: "\<forall>i<3. goes_on (page three_page_source s e i)"
proof (intro allI impI)
  fix i :: nat assume "i < 3"
  then have "i = 0 \<or> i = 1 \<or> i = 2" by arith
  then show "goes_on (page three_page_source s e i)"
    by (auto simp: three_pages goes_on_def)
qed

lemma three_pages_upto: "pages_upto three_page_source s e 0 3 = replicate 23000 current_record"
proof -
  have "[0..<3] = [0, 1, 2]" by (simp add: upt_rec numeral_3_eq_3)
  then have "pages_upto three_page_source s e 0 3 =
      replicate 10000 current_record @ replicate 10000 current_record @ replicate 3000 current_record"
    by (simp add: pages_upto_def three_pages records_of_def)
  also have "\<dots> = replicate (10000 + 10000 + 3000) current_record"
    by (simp only: replicate_add append_assoc)
  finally show ?thesis by simp
qed

lemma three_page_fetch:
  "fetch_pages three_page_source s e 0 [] issued =
     Some (Inr (replicate 23000 current_record), issued @ queries_upto s e 0 4)"
  using fetch_pages_empty_page [OF three_pages_go_on three_pages(4), of s e issued]
  by (simp add: three_pages_upto)


lemma all_records_goes_on:
  assumes "\<forall>i. \<exists>records. page src s e i = Records records"
  shows "goes_on (page src s e i) \<longleftrightarrow> page src s e i \<noteq> Records []"
proof -
  from assms obtain records where "page src s e i = Records records" by blast
  then show ?thesis by (simp add: goes_on_def)
qed

text \<open>
  C7 (amended): on a remote table whose requests all succeed, the pagination loop ends
  exactly when a page has no records, and it returns the pages fetched before, in order
  (the result and the requests issued are given, so the loop ends at the first empty page
  and not at a short one); for two pages of 10000 records, a page of 3000 records and an
  empty page the result has 23000 records.
\<close>

theorem pagination_until_empty_page:
  "((\<forall>i. \<exists>records. page src s e i = Records records) \<longrightarrow>
      (fetch_pages src s e 0 [] issued = Some out \<longleftrightarrow>
         (\<exists>k. page src s e k = Records [] \<and> (\<forall>i<k. page src s e i \<noteq> Records []) \<and>
              out = (Inr (pages_upto src s e 0 k), issued @ queries_upto s e 0 (Suc k)))))
   \<and> fetch_pages three_page_source s e 0 [] issued =
       Some (Inr (replicate 23000 current_record), issued @ queries_upto s e 0 4)"
proof (intro conjI impI)
  assume ok: "\<forall>i. \<exists>records. page src s e i = Records records"
  show "fetch_pages src s e 0 [] issued = Some out \<longleftrightarrow>
         (\<exists>k. page src s e k = Records [] \<and> (\<forall>i<k. page src s e i \<noteq> Records []) \<and>
              out = (Inr (pages_upto src s e 0 k), issued @ queries_upto s e 0 (Suc k)))"
  proof
    assume out: "fetch_pages src s e 0 [] issued = Some out"
    from fetch_pages_Some_stops [OF out] obtain m where "\<not> goes_on (page src s e m)"
      by (auto simp: page_def)
    from first_stop_exists [OF this] obtain k
      where k: "\<not> goes_on (page src s e k)" "\<forall>i<k. goes_on (page src s e i)" by blast
    from k(1) have e: "page src s e k = Records []"
      using all_records_goes_on [OF ok] by blast
    from k(2) have ne: "\<forall>i<k. page src s e i \<noteq> Records []"
      using all_records_goes_on [OF ok] by blast
    from fetch_pages_empty_page [OF k(2) e, of issued] out
    have "out = (Inr (pages_upto src s e 0 k), issued @ queries_upto s e 0 (Suc k))" by simp
    with e ne show "\<exists>k. page src s e k = Records [] \<and> (\<forall>i<k. page src s e i \<noteq> Records []) \<and>
              out = (Inr (pages_upto src s e 0 k), issued @ queries_upto s e 0 (Suc k))" by blast
  next
    assume "\<exists>k. page src s e k = Records [] \<and> (\<forall>i<k. page src s e i \<noteq> Records []) \<and>
              out = (Inr (pages_upto src s e 0 k), issued @ queries_upto s e 0 (Suc k))"
    then obtain k where k: "page src s e k = Records []" "\<forall>i<k. page src s e i \<noteq> Records []"
      "out = (Inr (pages_upto src s e 0 k), issued @ queries_upto s e 0 (Suc k))" by blast
    from k(2) have "\<forall>i<k. goes_on (page src s e i)"
      using all_records_goes_on [OF ok] by blast
    from fetch_pages_empty_page [OF this k(1), of issued] k(3)
    show "fetch_pages src s e 0 [] issued = Some out" by simp
  qed
next
  show "fetch_pages three_page_source s e 0 [] issued =
       Some (Inr (replicate 23000 current_record), issued @ queries_upto s e 0 4)"
    by (rule three_page_fetch)
qed

lemma three_pages_all_records: "\<forall>i. \<exists>records. page three_page_source s e i = Records records"
  by (simp add: page_def three_page_source_def)

theorem pagination_until_empty_page_witness:
  "(\<forall>i. \<exists>records. page three_page_source ''2022-04-01'' ''2022-05-31'' i = Records records)
   \<and> page three_page_source ''2022-04-01'' ''2022-05-31'' 3 = Records []
   \<and> fetch_pages three_page_source ''2022-04-01'' ''2022-05-31'' 0 [] [] =
       Some (Inr (pages_upto three_page_source ''2022-04-01'' ''2022-05-31'' 0 3),
             [] @ queries_upto ''2022-04-01'' ''2022-05-31'' 0 (Suc 3))
   \<and> length (pages_upto three_page_source ''2022-04-01'' ''2022-05-31'' 0 3) = 23000"
proof -
  let ?s = "''2022-04-01''" and ?e = "''2022-05-31''"
  have ne: "\<forall>i<3. page three_page_source ?s ?e i \<noteq> Records []"
    using three_pages_go_on [of ?s ?e] by (auto simp: goes_on_def)
  have "fetch_pages three_page_source ?s ?e 0 [] [] =
       Some (Inr (pages_upto three_page_source ?s ?e 0 3), [] @ queries_upto ?s ?e 0 (Suc 3))"
    using pagination_until_empty_page [of three_page_source ?s ?e "[]"
        "(Inr (pages_upto three_page_source ?s ?e 0 3), [] @ queries_upto ?s ?e 0 (Suc 3))"]
      three_pages_all_records [of ?s ?e] three_pages(4) [of ?s ?e] ne by blast
  then show ?thesis
    using three_pages_all_records [of ?s ?e] three_pages(4) [of ?s ?e]
    by (simp add: three_pages_upto)
qed

text \<open>
  C7 (as stated) gives 20003 records for two pages of 10000 records, a page of 3000 and
  an empty page. The loop returns the 23000 records of the three pages.
\<close>

theorem three_pages_give_23000_records:
  "fetch_pages three_page_source ''2022-04-01'' ''2022-05-31'' 0 [] [] =
     Some (Inr (replicate 23000 current_record), queries_upto ''2022-04-01'' ''2022-05-31'' 0 4)
   \<and> length (replicate 23000 current_record) \<noteq> 20003"
  using three_page_fetch [of "''2022-04-01''" "''2022-05-31''" "[]"] by simp


section \<open>Properties of the cache and of failed requests\<close>

lemma process_location_keeps:
  "requests (snd (process_location half_up gdf s e loc st)) = requests st"
  "files (snd (process_location half_up gdf s e loc st)) = files st"
  by (auto simp: process_location_def daily_stats_block_def overall_stats_block_def
      save_block_def Let_def split: geojson.splits list.splits option.splits prod.splits)

lemma process_locations_keeps:
  "requests (snd (process_locations half_up gdf s e locs st)) = requests st
   \<and> files (snd (process_locations half_up gdf s e locs st)) = files st"
proof (induction locs arbitrary: st)
  case Nil
  then show ?case by simp
next
  case (Cons loc locs)
  obtain err st' where p: "process_location half_up gdf s e loc st = (err, st')"
    by (cases "process_location half_up gdf s e loc st")
  with process_location_keeps [of half_up gdf s e loc st]
  have k: "requests st' = requests st" "files st' = files st" by simp_all
  show ?case
  proof (cases err)
    case None
    with p k Cons.IH [of st'] show ?thesis by simp
  next
    case (Some a)
    with p k show ?thesis by simp
  qed
qed

lemma load_records_hit:
  assumes "files st (cache_file_path s e) = Some (JsonRecords rs)"
  shows "load_records src s e st = Some (Inr rs, st)"
  using assms by (simp add: load_records_def)

lemma load_records_miss:
  assumes "files st (cache_file_path s e) = None"
    and "fetch_pages src s e 0 [] (requests st) = Some (Inr rs, issued)"
  shows "load_records src s e st =
         Some (Inr rs, st\<lparr>files := (files st)(cache_file_path s e \<mapsto> JsonRecords rs),
                          requests := issued\<rparr>)"
  using assms by (simp add: load_records_def)

lemma window_body_loaded:
  assumes "load_records src s e st = Some (Inr rs, st')"
  shows "window_body half_up src locs (s, e) st =
         (if df_empty (normalize_records rs) then Some (None, st')
          else Some (process_locations half_up (normalize_records rs) s e locs st'))"
  using assms by (simp add: window_body_def)

lemma process_window_loaded:
  assumes "load_records src s e st = Some (Inr rs, st')"
  shows "\<exists>st''. process_window half_up src locs (s, e) st = Some st''
           \<and> requests st'' = requests st' \<and> files st'' = files st'"
proof (cases "df_empty (normalize_records rs)")
  case True
  with window_body_loaded [OF assms, of half_up locs] show ?thesis
    by (simp add: process_window_def)
next
  case False
  obtain err st'' where p: "process_locations half_up (normalize_records rs) s e locs st' = (err, st'')"
    by (cases "process_locations half_up (normalize_records rs) s e locs st'")
  with process_locations_keeps [of half_up "normalize_records rs" s e locs st']
  have "requests st'' = requests st'" "files st'' = files st'" by simp_all
  with False p window_body_loaded [OF assms, of half_up locs] show ?thesis
    by (simp add: process_window_def)
qed

lemma queries_upto_distinct:
  "distinct (queries_upto s e 0 k) \<and> length (queries_upto s e 0 k) = k"
  by (auto simp: queries_upto_def distinct_map inj_on_def sql_query_def limit_def)

text \<open>
  C2: when the request for page \<open>n + 1\<close> of a window fails with a transport or HTTP
  error after \<open>n\<close> pages with records, the loop stops there: the records of those \<open>n\<close>
  pages are the window's raw record set, each of the \<open>n + 1\<close> requests was sent once
  (no retry), the window is processed on these records, and the run goes on with the
  next windows. So a transport error after one full page of 10000 records leaves
  exactly those 10000 records.
\<close>

theorem fetch_error_keeps_partial_pages:
  assumes "\<forall>i<n. goes_on (page src s e i)"
    and "page src s e n = TransportFailure \<or> page src s e n = HTTPFailure"
    and "files st (cache_file_path s e) = None"
  shows "fetch_pages src s e 0 [] (requests st) =
           Some (Inr (pages_upto src s e 0 n), requests st @ queries_upto s e 0 (Suc n))
         \<and> distinct (queries_upto s e 0 (Suc n)) \<and> length (queries_upto s e 0 (Suc n)) = Suc n
         \<and> (\<exists>st'. load_records src s e st = Some (Inr (pages_upto src s e 0 n), st')
               \<and> requests st' = requests st @ queries_upto s e 0 (Suc n)
               \<and> window_body half_up src locs (s, e) st =
                   (if df_empty (normalize_records (pages_upto src s e 0 n)) then Some (None, st')
                    else Some (process_locations half_up (normalize_records (pages_upto src s e 0 n))
                                 s e locs st')))
         \<and> (\<exists>st''. process_window half_up src locs (s, e) st = Some st''
               \<and> run_windows half_up src locs ((s, e) # ws) st = run_windows half_up src locs ws st'')"
proof -
  let ?rs = "pages_upto src s e 0 n"
  let ?st' = "st\<lparr>files := (files st)(cache_file_path s e \<mapsto> JsonRecords ?rs),
                 requests := requests st @ queries_upto s e 0 (Suc n)\<rparr>"
  have f: "fetch_pages src s e 0 [] (requests st) =
           Some (Inr ?rs, requests st @ queries_upto s e 0 (Suc n))"
    using assms(1,2) by (rule fetch_pages_failure)
  have l: "load_records src s e st = Some (Inr ?rs, ?st')"
    using assms(3) f by (rule load_records_miss)
  from process_window_loaded [OF l, of half_up locs] obtain st''
    where w: "process_window half_up src locs (s, e) st = Some st''" by blast
  then have r: "run_windows half_up src locs ((s, e) # ws) st = run_windows half_up src locs ws st''" by simp
  have "requests ?st' = requests st @ queries_upto s e 0 (Suc n)" by simp
  with f l w r window_body_loaded [OF l, of half_up locs] queries_upto_distinct [of s e "Suc n"]
  show ?thesis by blast
qed

lemma broken_pages:
  "page broken_source s e 0 = Records (replicate 10000 current_record)"
  "page broken_source s e (Suc 0) = TransportFailure"
  by (simp_all add: page_def broken_source_def sql_query_def limit_def)

theorem fetch_error_keeps_partial_pages_witness:
  "goes_on (page broken_source ''2022-04-01'' ''2022-05-31'' 0)
   \<and> page broken_source ''2022-04-01'' ''2022-05-31'' (Suc 0) = TransportFailure
   \<and> files (initial_state Map.empty) (cache_file_path ''2022-04-01'' ''2022-05-31'') = None
   \<and> fetch_pages broken_source ''2022-04-01'' ''2022-05-31'' 0 [] [] =
       Some (Inr (replicate 10000 current_record),
             [sql_query ''2022-04-01'' ''2022-05-31'' 0, sql_query ''2022-04-01'' ''2022-05-31'' 10000])"
proof -
  let ?s = "''2022-04-01''" and ?e = "''2022-05-31''"
  have a: "\<forall>i<Suc 0. goes_on (page broken_source ?s ?e i)"
    by (simp add: broken_pages goes_on_def)
  have b: "page broken_source ?s ?e (Suc 0) = TransportFailure \<or>
           page broken_source ?s ?e (Suc 0) = HTTPFailure"
    by (simp add: broken_pages)
  have c: "files (initial_state Map.empty) (cache_file_path ?s ?e) = None"
    by (simp add: initial_state_def)
  have p: "pages_upto broken_source ?s ?e 0 (Suc 0) = replicate 10000 current_record"
    by (simp add: pages_upto_def broken_pages records_of_def)
  have q: "queries_upto ?s ?e 0 (Suc (Suc 0)) = [sql_query ?s ?e 0, sql_query ?s ?e 10000]"
    by (simp add: queries_upto_def limit_def)
  from fetch_error_keeps_partial_pages [OF a b c, of to_even "[]" "[]"] c
  show ?thesis by (simp add: p q broken_pages initial_state_def goes_on_def)
qed


text \<open>
  C3: when the cache file of the window's literal bounds exists (with what an earlier
  \<^verbatim>\<open>json.dump\<close> wrote), its records are returned and the state, with its log of remote
  requests, is unchanged: no request is sent. Otherwise the result of the pagination loop
  is returned and stored under that file name as it is, the empty list too, and the rest
  of the window's processing starts from the state that holds the file.
\<close>

theorem cache_hit_or_fetch_and_persist:
  "(files st (cache_file_path s e) = Some (JsonRecords rs) \<longrightarrow>
      load_records src s e st = Some (Inr rs, st))
   \<and> (files st (cache_file_path s e) = None
        \<and> fetch_pages src s e 0 [] (requests st) = Some (Inr rs, issued) \<longrightarrow>
      load_records src s e st =
        Some (Inr rs, st\<lparr>files := (files st)(cache_file_path s e \<mapsto> JsonRecords rs),
                         requests := issued\<rparr>))
   \<and> (load_records src s e st = Some (Inr rs, st') \<longrightarrow>
      window_body half_up src locs (s, e) st =
        (if df_empty (normalize_records rs) then Some (None, st')
         else Some (process_locations half_up (normalize_records rs) s e locs st')))"
  using load_records_hit [of st s e rs src] load_records_miss [of st s e src rs issued]
    window_body_loaded [of src s e st rs st' half_up locs]
  by blast

lemma empty_source_fetch:
  "fetch_pages empty_source s e 0 [] issued = Some (Inr [], issued @ [sql_query s e 0])"
  by (subst fetch_pages.simps) (simp add: empty_source_def)

theorem cache_hit_or_fetch_and_persist_witness:
  "load_records broken_source ''2022-04-01'' ''2022-05-31''
      (initial_state [cache_file_path ''2022-04-01'' ''2022-05-31'' \<mapsto> JsonRecords [current_record]])
     = Some (Inr [current_record],
         initial_state [cache_file_path ''2022-04-01'' ''2022-05-31'' \<mapsto> JsonRecords [current_record]])
   \<and> files (initial_state Map.empty) (cache_file_path ''2022-04-01'' ''2022-05-31'') = None
   \<and> fetch_pages empty_source ''2022-04-01'' ''2022-05-31'' 0 [] [] =
        Some (Inr [], [sql_query ''2022-04-01'' ''2022-05-31'' 0])
   \<and> load_records empty_source ''2022-04-01'' ''2022-05-31'' (initial_state Map.empty)
     = Some (Inr [],
         (initial_state Map.empty)
           \<lparr>files := [cache_file_path ''2022-04-01'' ''2022-05-31'' \<mapsto> JsonRecords []],
            requests := [sql_query ''2022-04-01'' ''2022-05-31'' 0]\<rparr>)"
proof -
  let ?s = "''2022-04-01''" and ?e = "''2022-05-31''"
  let ?hit = "initial_state [cache_file_path ?s ?e \<mapsto> JsonRecords [current_record]]"
  have h: "files ?hit (cache_file_path ?s ?e) = Some (JsonRecords [current_record])"
    by (simp add: initial_state_def)
  have m: "files (initial_state Map.empty) (cache_file_path ?s ?e) = None"
    by (simp add: initial_state_def)
  have f: "fetch_pages empty_source ?s ?e 0 [] (requests (initial_state Map.empty)) =
        Some (Inr [], [sql_query ?s ?e 0])"
    using empty_source_fetch [of ?s ?e "[]"] by (simp add: initial_state_def)
  have 1: "load_records broken_source ?s ?e ?hit = Some (Inr [current_record], ?hit)"
    using cache_hit_or_fetch_and_persist [of ?hit ?s ?e "[current_record]" broken_source] h
    by blast
  have 2: "load_records empty_source ?s ?e (initial_state Map.empty) =
      Some (Inr [], (initial_state Map.empty)
           \<lparr>files := (files (initial_state Map.empty))(cache_file_path ?s ?e \<mapsto> JsonRecords []),
            requests := [sql_query ?s ?e 0]\<rparr>)"
    using cache_hit_or_fetch_and_persist [of "initial_state Map.empty" ?s ?e "[]" empty_source
        "[sql_query ?s ?e 0]"] m f
    by blast
  have "files (initial_state Map.empty) = Map.empty" by (simp add: initial_state_def)
  with 1 2 m f show ?thesis by (simp add: initial_state_def)
qed

text \<open>
  C9: when a transport or HTTP error cuts a window's pagination short, the records
  collected before the error are written to the window's cache file. In every later
  state that still holds this file, whatever the remote table then answers, the window
  is loaded from the file, processed on the truncated records, and no request is sent.
\<close>

theorem truncated_fetch_is_cached:
  assumes "\<forall>i<n. goes_on (page src s e i)"
    and "page src s e n = TransportFailure \<or> page src s e n = HTTPFailure"
    and "files st (cache_file_path s e) = None"
  shows "\<exists>st'. load_records src s e st = Some (Inr (pages_upto src s e 0 n), st')
           \<and> files st' (cache_file_path s e) = Some (JsonRecords (pages_upto src s e 0 n))
           \<and> (\<forall>src2 locs st2.
                 files st2 (cache_file_path s e) = files st' (cache_file_path s e) \<longrightarrow>
                   load_records src2 s e st2 = Some (Inr (pages_upto src s e 0 n), st2)
                   \<and> window_body half_up src2 locs (s, e) st2 =
                       (if df_empty (normalize_records (pages_upto src s e 0 n))
                        then Some (None, st2)
                        else Some (process_locations half_up (normalize_records (pages_upto src s e 0 n))
                                     s e locs st2))
                   \<and> (\<exists>st3. process_window half_up src2 locs (s, e) st2 = Some st3
                              \<and> requests st3 = requests st2 \<and> files st3 = files st2))"
proof -
  let ?rs = "pages_upto src s e 0 n"
  let ?st' = "st\<lparr>files := (files st)(cache_file_path s e \<mapsto> JsonRecords ?rs),
                 requests := requests st @ queries_upto s e 0 (Suc n)\<rparr>"
  have f: "fetch_pages src s e 0 [] (requests st) =
           Some (Inr ?rs, requests st @ queries_upto s e 0 (Suc n))"
    using assms(1,2) by (rule fetch_pages_failure)
  have l: "load_records src s e st = Some (Inr ?rs, ?st')"
    using assms(3) f by (rule load_records_miss)
  have c: "files ?st' (cache_file_path s e) = Some (JsonRecords ?rs)" by simp
  have later: "load_records src2 s e st2 = Some (Inr ?rs, st2)
      \<and> window_body half_up src2 locs (s, e) st2 =
          (if df_empty (normalize_records ?rs) then Some (None, st2)
           else Some (process_locations half_up (normalize_records ?rs) s e locs st2))
      \<and> (\<exists>st3. process_window half_up src2 locs (s, e) st2 = Some st3
                 \<and> requests st3 = requests st2 \<and> files st3 = files st2)"
    if "files st2 (cache_file_path s e) = files ?st' (cache_file_path s e)"
    for src2 :: remote and locs st2
  proof -
    from that c have "files st2 (cache_file_path s e) = Some (JsonRecords ?rs)" by simp
    then have h: "load_records src2 s e st2 = Some (Inr ?rs, st2)" by (rule load_records_hit)
    from h window_body_loaded [OF h, of half_up locs] process_window_loaded [OF h, of half_up locs]
    show ?thesis by blast
  qed
  from l c later show ?thesis by blast
qed

lemma short_broken_pages:
  "page short_broken_source s e 0 = Records [legacy_record, current_record]"
  "page short_broken_source s e (Suc 0) = HTTPFailure"
  by (simp_all add: page_def short_broken_source_def sql_query_def limit_def)

theorem truncated_fetch_is_cached_witness:
  "goes_on (page short_broken_source ''2022-04-01'' ''2022-05-31'' 0)
   \<and> page short_broken_source ''2022-04-01'' ''2022-05-31'' (Suc 0) = HTTPFailure
   \<and> files (initial_state Map.empty) (cache_file_path ''2022-04-01'' ''2022-05-31'') = None
   \<and> (\<exists>st'. load_records short_broken_source ''2022-04-01'' ''2022-05-31'' (initial_state Map.empty)
              = Some (Inr [legacy_record, current_record], st')
        \<and> files st' (cache_file_path ''2022-04-01'' ''2022-05-31'')
              = Some (JsonRecords [legacy_record, current_record])
        \<and> load_records three_page_source ''2022-04-01'' ''2022-05-31'' (initial_state (files st'))
              = Some (Inr [legacy_record, current_record], initial_state (files st'))
        \<and> requests (initial_state (files st')) = [])"
proof -
  let ?s = "''2022-04-01''" and ?e = "''2022-05-31''"
  have a: "\<forall>i<Suc 0. goes_on (page short_broken_source ?s ?e i)"
    by (simp add: short_broken_pages goes_on_def)
  have b: "page short_broken_source ?s ?e (Suc 0) = TransportFailure \<or>
           page short_broken_source ?s ?e (Suc 0) = HTTPFailure"
    by (simp add: short_broken_pages)
  have c: "files (initial_state Map.empty) (cache_file_path ?s ?e) = None"
    by (simp add: initial_state_def)
  have p: "pages_upto short_broken_source ?s ?e 0 (Suc 0) = [legacy_record, current_record]"
    by (simp add: pages_upto_def short_broken_pages records_of_def)
  from truncated_fetch_is_cached [OF a b c] obtain st' where
    st': "load_records short_broken_source ?s ?e (initial_state Map.empty)
            = Some (Inr [legacy_record, current_record], st')"
      "files st' (cache_file_path ?s ?e) = Some (JsonRecords [legacy_record, current_record])"
      "\<forall>src2 locs st2. files st2 (cache_file_path ?s ?e) = files st' (cache_file_path ?s ?e) \<longrightarrow>
          load_records src2 ?s ?e st2 = Some (Inr [legacy_record, current_record], st2)"
    unfolding p by blast
  have "files (initial_state (files st')) (cache_file_path ?s ?e) = files st' (cache_file_path ?s ?e)"
    by (simp add: initial_state_def)
  with st'(3) have "load_records three_page_source ?s ?e (initial_state (files st'))
              = Some (Inr [legacy_record, current_record], initial_state (files st'))"
    by blast
  moreover have "requests (initial_state (files st')) = []" by (simp add: initial_state_def)
  moreover have "goes_on (page short_broken_source ?s ?e 0)"
    by (simp add: short_broken_pages goes_on_def)
  ultimately show ?thesis using c st'(1,2) short_broken_pages(2) [of ?s ?e] by blast
qed


section \<open>Properties of the statistics table\<close>

lemma find_map_comp: "find P (map f xs) = map_option f (find (P \<circ> f) xs)"
  by (induction xs) simp_all

lemma find_eq: "find (\<lambda>x. x = d) xs = (if d \<in> set xs then Some d else None)"
  by (induction xs) auto

lemma fold_min_le: "x \<in> set (a # xs) \<Longrightarrow> fold min xs (a :: int) \<le> x"
  using Min_le [of "set (a # xs)" x] by (simp only: Min.set_eq_fold [symmetric] List.finite_set)

lemma le_fold_max: "x \<in> set (a # xs) \<Longrightarrow> x \<le> fold max xs (a :: int)"
  using Max_ge [of "set (a # xs)" x] by (simp only: Max.set_eq_fold [symmetric] List.finite_set)

lemma day_row_no_records:
  assumes "\<forall>r \<in> set rs. day_of r \<noteq> d"
  shows "day_row rs d = \<lparr>Date = Day d, PM2_5_Average = NaN, PM2_5_Median = NaN\<rparr>"
proof -
  from assms have "filter (\<lambda>r. day_of r = d) rs = []" by (simp add: filter_empty_conv)
  then show ?thesis
    by (simp add: day_row_def column_pm2_5_def List.map_filter_simps mean_def median_def cell_of_def)
qed

lemma find_resample_D:
  "(case find (\<lambda>row. Date row = Day d) (resample_D rs) of
      Some row \<Rightarrow> row
    | None \<Rightarrow> \<lparr>Date = Day d, PM2_5_Average = NaN, PM2_5_Median = NaN\<rparr>) = day_row rs d"
proof (cases "rs = []")
  case True
  then show ?thesis by (simp add: resample_D_def day_row_no_records)
next
  case False
  let ?lo = "fold min (map day_of rs) (day_of (hd rs))"
  let ?hi = "fold max (map day_of rs) (day_of (hd rs))"
  have c: "(\<lambda>row. Date row = Day d) \<circ> day_row rs = (\<lambda>x. x = d)"
    by (rule ext) (simp add: day_row_def)
  have f: "find (\<lambda>row. Date row = Day d) (resample_D rs) =
           (if d \<in> set [?lo..?hi] then Some (day_row rs d) else None)"
    using False by (simp add: resample_D_def find_map_comp c find_eq)
  show ?thesis
  proof (cases "d \<in> set [?lo..?hi]")
    case True
    with f show ?thesis by simp
  next
    case out: False
    have "day_of r \<noteq> d" if "r \<in> set rs" for r
    proof -
      from that have "day_of r \<in> set (day_of (hd rs) # map day_of rs)" by simp
      then have "?lo \<le> day_of r" "day_of r \<le> ?hi"
        by (rule fold_min_le, rule le_fold_max)
      with out show ?thesis by auto
    qed
    then have "day_row rs d = \<lparr>Date = Day d, PM2_5_Average = NaN, PM2_5_Median = NaN\<rparr>"
      by (simp add: day_row_no_records)
    with f out show ?thesis by simp
  qed
qed

lemma reindex_resample_D: "reindex (resample_D rs) idx = map (day_row rs) idx"
  by (simp add: reindex_def find_resample_D)

lemma daily_table:
  "map (on_stats fillna_missing)
     (map (on_stats (cell_map (round2 half_up)))
       (map (on_stats (cell_map (\<lambda>v. v / 100)))
         (reindex (resample_D rs) (date_range s e)))) = map (\<lambda>d. shown half_up (day_row rs d)) [s..e]"
  by (simp add: reindex_resample_D date_range_def shown_def)

lemma Date_shown [simp]: "Date (shown half_up row) = Date row"
  by (simp add: shown_def on_stats_def)

lemma Date_day_row [simp]: "Date (day_row rs d) = Day d"
  by (simp add: day_row_def)

lemma shown_no_records:
  assumes "\<forall>r \<in> set rs. day_of r \<noteq> d"
  shows "shown half_up (day_row rs d) = \<lparr>Date = Day d, PM2_5_Average = Missing, PM2_5_Median = Missing\<rparr>"
  using day_row_no_records [OF assms]
  by (simp add: shown_def on_stats_def cell_map_def fillna_missing_def)


lemma col_within_polygon [simp]: "col_pm2_5 (within_polygon gdf polygon) = col_pm2_5 gdf"
  by (simp add: within_polygon_def)

text \<open>One pass of the loop over locations when the frame has a pm2_5 column, the area
  holds a record and the window's bounds parse: both variables are assigned, and the
  table appended to the summary is the daily table followed by the overall row.\<close>

lemma process_location_fresh:
  assumes "snd loc = Shapes (polygon # others)"
    and "col_pm2_5 gdf"
    and "rows (within_polygon gdf polygon) \<noteq> []"
    and "parse_date start_date = Some s" and "parse_date end_date = Some e"
  shows "process_location half_up gdf start_date end_date loc st =
     (None,
      save_block (within_polygon gdf polygon) (fst loc) start_date end_date
        (st\<lparr>daily_stats :=
               Some (map (\<lambda>d. shown half_up (day_row (rows (within_polygon gdf polygon)) d)) [s..e]),
            overall_stats := Some [overall_row half_up (rows (within_polygon gdf polygon))],
            all_stats_sections := all_stats_sections st @
              [(section_label (fst loc) start_date end_date,
                map (\<lambda>d. shown half_up (day_row (rows (within_polygon gdf polygon)) d)) [s..e]
                  @ [overall_row half_up (rows (within_polygon gdf polygon))])]\<rparr>))"
  using assms
  by (simp add: process_location_def df_empty_def daily_stats_block_def overall_stats_block_def
      reindex_resample_D date_range_def shown_def comp_def Let_def)

lemma sections_save_block [simp]:
  "all_stats_sections (save_block g n s e st) = all_stats_sections st"
  by (simp add: save_block_def)

lemma stats_table_appended:
  assumes "snd loc = Shapes (polygon # others)"
    and "col_pm2_5 gdf"
    and "rows (within_polygon gdf polygon) \<noteq> []"
    and "parse_date start_date = Some s" and "parse_date end_date = Some e"
  shows "\<exists>st'. process_location half_up gdf start_date end_date loc st = (None, st')
     \<and> all_stats_sections st' = all_stats_sections st @
          [(section_label (fst loc) start_date end_date,
            map (\<lambda>d. shown half_up (day_row (rows (within_polygon gdf polygon)) d)) [s..e]
              @ [overall_row half_up (rows (within_polygon gdf polygon))])]"
  using process_location_fresh [OF assms, of half_up st] by simp

lemma Date_overall_row [simp]: "Date (overall_row half_up rs) = Overall"
  by (simp add: overall_row_def)

lemma Date_daily: "map Date (map (\<lambda>d. shown half_up (day_row rs d)) ds) = map Day ds"
  by (simp add: comp_def)

lemma filter_days:
  "filter (\<lambda>row. Date row \<noteq> Overall) (map (\<lambda>d. shown half_up (day_row rs d)) ds @ [overall_row half_up rs'])
     = map (\<lambda>d. shown half_up (day_row rs d)) ds"
  "filter (\<lambda>row. Date row = Overall) (map (\<lambda>d. shown half_up (day_row rs d)) ds @ [overall_row half_up rs'])
     = [overall_row half_up rs']"
  by (simp_all add: filter_map comp_def)

text \<open>
  C4 (amended): for a window from day \<open>s\<close> to day \<open>e\<close> and an area that holds at least
  one record, where the window's record set has a pm2_5 column (some record carries a
  value), the table appended to the summary has one row for each day from \<open>s\<close> to \<open>e\<close>,
  in order, followed by one "Overall" row: \<open>e - s + 1\<close> day rows and exactly one overall
  row, whatever days the records fall on.
\<close>

theorem stats_table_rows:
  assumes "snd loc = Shapes (polygon # others)"
    and "col_pm2_5 gdf"
    and "rows (within_polygon gdf polygon) \<noteq> []"
    and "parse_date start_date = Some s" and "parse_date end_date = Some e"
    and "s \<le> e"
  shows "\<exists>tbl st'. process_location half_up gdf start_date end_date loc st = (None, st')
     \<and> all_stats_sections st' =
          all_stats_sections st @ [(section_label (fst loc) start_date end_date, tbl)]
     \<and> map Date tbl = map Day [s..e] @ [Overall]
     \<and> int (length (filter (\<lambda>row. Date row \<noteq> Overall) tbl)) = e - s + 1
     \<and> length (filter (\<lambda>row. Date row = Overall) tbl) = 1"
proof -
  let ?rs = "rows (within_polygon gdf polygon)"
  let ?tbl = "map (\<lambda>d. shown half_up (day_row ?rs d)) [s..e] @ [overall_row half_up ?rs]"
  from stats_table_appended [OF assms(1-5), of half_up st] obtain st'
    where st': "process_location half_up gdf start_date end_date loc st = (None, st')"
      "all_stats_sections st' =
         all_stats_sections st @ [(section_label (fst loc) start_date end_date, ?tbl)]"
    by blast
  have d: "map Date ?tbl = map Day [s..e] @ [Overall]" by (simp add: comp_def)
  have n: "int (length (filter (\<lambda>row. Date row \<noteq> Overall) ?tbl)) = e - s + 1"
    using assms(6) by (simp add: filter_days)
  have o: "length (filter (\<lambda>row. Date row = Overall) ?tbl) = 1"
    by (simp add: filter_days)
  from st' d n o show ?thesis by blast
qed


lemma scenario_facts:
  "snd highfive_area = Shapes (everywhere # [])"
  "fst highfive_area = ''highfive_area''"
  "parse_date ''2022-04-01'' = Some 19083"
  "parse_date ''2022-04-03'' = Some 19085"
  by (simp_all add: highfive_area_def parse_date_def digit_def days_in_month_def
      days_from_civil_def is_leap_def)

lemma normalize_scenario:
  "normalize_records scenario_records =
     \<lparr>col_pm2_5 = True, col_version_major = True, rows = scenario_records\<rparr>"
  "normalize_records (scenario_records @ [late_record]) =
     \<lparr>col_pm2_5 = True, col_version_major = True, rows = scenario_records @ [late_record]\<rparr>"
  by (simp_all add: normalize_records_def scale_correction_def range_filter_def DataFrame_def
      df_empty_def in_range_def times_100_def scenario_records_def late_record_def sample_def)

lemma within_everywhere [simp]: "within_polygon gdf everywhere = gdf"
  by (simp add: within_polygon_def everywhere_def)

theorem stats_table_rows_witness:
  "snd highfive_area = Shapes (everywhere # [])
   \<and> col_pm2_5 (normalize_records scenario_records)
   \<and> rows (within_polygon (normalize_records scenario_records) everywhere) \<noteq> []
   \<and> parse_date ''2022-04-01'' = Some 19083 \<and> parse_date ''2022-04-03'' = Some 19085
   \<and> (19083 :: int) \<le> 19085
   \<and> (\<exists>tbl st'.
         process_location to_even (normalize_records scenario_records) ''2022-04-01'' ''2022-04-03''
           highfive_area (initial_state Map.empty) = (None, st')
       \<and> all_stats_sections st' = [(''highfive_area (2022-04-01 to 2022-04-03)'', tbl)]
       \<and> map Date tbl = [Day 19083, Day 19084, Day 19085, Overall]
       \<and> int (length (filter (\<lambda>row. Date row \<noteq> Overall) tbl)) = 3
       \<and> length (filter (\<lambda>row. Date row = Overall) tbl) = 1)"
proof -
  have b: "col_pm2_5 (normalize_records scenario_records)"
    by (simp add: normalize_scenario)
  have c: "rows (within_polygon (normalize_records scenario_records) everywhere) \<noteq> []"
    by (simp add: normalize_scenario) (simp add: scenario_records_def)
  have f: "(19083 :: int) \<le> 19085" by simp
  have u: "[19083..19085] = [19083, 19084, 19085 :: int]" by (simp add: upto_rec_numeral)
  from stats_table_rows [OF scenario_facts(1) b c scenario_facts(3,4) f,
      of to_even "initial_state Map.empty"]
  show ?thesis using b c scenario_facts(1,3,4)
    by (simp add: u scenario_facts(2) section_label_def initial_state_def)
qed


lemma nth_daily:
  assumes "s \<le> d" and "d \<le> e"
  shows "(map f [s..e] @ [x]) ! nat (d - s) = f d"
proof -
  from assms have l: "nat (d - s) < length [s..e]" by simp
  from assms have "[s..e] ! nat (d - s) = d" by (simp add: nth_upto)
  with l show ?thesis by (simp add: nth_append)
qed

lemma set_column_pm2_5: "set (column_pm2_5 rs) = {v. \<exists>r \<in> set rs. pm2_5 r = Some v}"
  by (induction rs) (auto simp: column_pm2_5_def List.map_filter_simps split: option.splits)

text \<open>
  C5 (amended): where the window's record set has a pm2_5 column and the area holds at
  least one record, a day \<open>d\<close> of the window on which no record of the area falls has the
  missing marker in the average and in the median column of its row. The overall row is
  computed from the pm2_5 values of the area's records alone (their mean and median,
  divided by 100 and rounded): it is the same as the overall row of the records of the
  other days, and no row of the daily table enters it. (The division by 100 and the
  rounding of lines 194-197 leave the NaN of such a day as it is; the marker replaces it
  last.)
\<close>

theorem missing_days_marked:
  assumes "snd loc = Shapes (polygon # others)"
    and "col_pm2_5 gdf"
    and "rows (within_polygon gdf polygon) \<noteq> []"
    and "parse_date start_date = Some s" and "parse_date end_date = Some e"
    and "s \<le> d" and "d \<le> e"
    and "\<forall>r \<in> set (rows (within_polygon gdf polygon)). day_of r \<noteq> d"
  shows "\<exists>tbl st'. process_location half_up gdf start_date end_date loc st = (None, st')
     \<and> all_stats_sections st' =
          all_stats_sections st @ [(section_label (fst loc) start_date end_date, tbl)]
     \<and> tbl ! nat (d - s) = \<lparr>Date = Day d, PM2_5_Average = Missing, PM2_5_Median = Missing\<rparr>
     \<and> last tbl = overall_row half_up (rows (within_polygon gdf polygon))
     \<and> last tbl = overall_row half_up (filter (\<lambda>r. day_of r \<noteq> d) (rows (within_polygon gdf polygon)))
     \<and> PM2_5_Average (last tbl) =
          cell_map (round2 half_up) (cell_map (\<lambda>v. v / 100)
            (cell_of (mean (column_pm2_5 (rows (within_polygon gdf polygon))))))
     \<and> PM2_5_Median (last tbl) =
          cell_map (round2 half_up) (cell_map (\<lambda>v. v / 100)
            (cell_of (median (column_pm2_5 (rows (within_polygon gdf polygon))))))"
proof -
  let ?rs = "rows (within_polygon gdf polygon)"
  let ?tbl = "map (\<lambda>d. shown half_up (day_row ?rs d)) [s..e] @ [overall_row half_up ?rs]"
  from stats_table_appended [OF assms(1-5), of half_up st] obtain st'
    where st': "process_location half_up gdf start_date end_date loc st = (None, st')"
      "all_stats_sections st' =
         all_stats_sections st @ [(section_label (fst loc) start_date end_date, ?tbl)]"
    by blast
  have m: "?tbl ! nat (d - s) = \<lparr>Date = Day d, PM2_5_Average = Missing, PM2_5_Median = Missing\<rparr>"
    using nth_daily [OF assms(6,7), of "\<lambda>d. shown half_up (day_row ?rs d)" "overall_row half_up ?rs"]
      shown_no_records [OF assms(8)] by simp
  have l: "last ?tbl = overall_row half_up ?rs" by simp
  from assms(8) have "filter (\<lambda>r. day_of r \<noteq> d) ?rs = ?rs" by simp
  then have f: "last ?tbl = overall_row half_up (filter (\<lambda>r. day_of r \<noteq> d) ?rs)" by simp
  have a: "PM2_5_Average (last ?tbl) =
          cell_map (round2 half_up) (cell_map (\<lambda>v. v / 100) (cell_of (mean (column_pm2_5 ?rs))))"
    and b: "PM2_5_Median (last ?tbl) =
          cell_map (round2 half_up) (cell_map (\<lambda>v. v / 100) (cell_of (median (column_pm2_5 ?rs))))"
    by (simp_all add: overall_row_def)
  from st' m l f a b show ?thesis by blast
qed

text \<open>
  C10: a record of the area whose day lies outside the window has no row in the table
  (the rows are the days of the window and "Overall"), yet its pm2_5 value is one of the
  values whose mean and median the overall row shows.
\<close>

theorem out_of_window_records_in_overall:
  assumes "snd loc = Shapes (polygon # others)"
    and "col_pm2_5 gdf"
    and "parse_date start_date = Some s" and "parse_date end_date = Some e"
    and "r \<in> set (rows (within_polygon gdf polygon))"
    and "day_of r < s \<or> e < day_of r"
    and "pm2_5 r = Some v"
  shows "\<exists>tbl st'. process_location half_up gdf start_date end_date loc st = (None, st')
     \<and> all_stats_sections st' =
          all_stats_sections st @ [(section_label (fst loc) start_date end_date, tbl)]
     \<and> Day (day_of r) \<notin> set (map Date tbl)
     \<and> last tbl = overall_row half_up (rows (within_polygon gdf polygon))
     \<and> v \<in> set (column_pm2_5 (rows (within_polygon gdf polygon)))
     \<and> PM2_5_Average (last tbl) =
          cell_map (round2 half_up) (cell_map (\<lambda>v. v / 100)
            (cell_of (mean (column_pm2_5 (rows (within_polygon gdf polygon))))))
     \<and> PM2_5_Median (last tbl) =
          cell_map (round2 half_up) (cell_map (\<lambda>v. v / 100)
            (cell_of (median (column_pm2_5 (rows (within_polygon gdf polygon))))))"
proof -
  let ?rs = "rows (within_polygon gdf polygon)"
  let ?tbl = "map (\<lambda>d. shown half_up (day_row ?rs d)) [s..e] @ [overall_row half_up ?rs]"
  from assms(5) have ne: "?rs \<noteq> []" by auto
  from stats_table_appended [OF assms(1,2) ne assms(3,4), of half_up st] obtain st'
    where st': "process_location half_up gdf start_date end_date loc st = (None, st')"
      "all_stats_sections st' =
         all_stats_sections st @ [(section_label (fst loc) start_date end_date, ?tbl)]"
    by blast
  have "map Date ?tbl = map Day [s..e] @ [Overall]" by (simp add: comp_def)
  with assms(6) have n: "Day (day_of r) \<notin> set (map Date ?tbl)" by auto
  have l: "last ?tbl = overall_row half_up ?rs" by simp
  from assms(5,7) have v: "v \<in> set (column_pm2_5 ?rs)"
    by (auto simp: set_column_pm2_5)
  have a: "PM2_5_Average (last ?tbl) =
          cell_map (round2 half_up) (cell_map (\<lambda>v. v / 100) (cell_of (mean (column_pm2_5 ?rs))))"
    and b: "PM2_5_Median (last ?tbl) =
          cell_map (round2 half_up) (cell_map (\<lambda>v. v / 100) (cell_of (median (column_pm2_5 ?rs))))"
    by (simp_all add: overall_row_def)
  from st' n l v a b show ?thesis by blast
qed

lemma day_of_samples:
  "day_of (sample n 1648807200 v ver) = 19083"
  "day_of (sample n 1648810800 v ver) = 19083"
  "day_of (sample n 1648951200 v ver) = 19085"
  "day_of (sample n 1649548800 v ver) = 19092"
  by (simp_all add: day_of_def sample_def)

text \<open>Rounding: values that are not halfway between two hundredths do not depend on the
  direction; the mean 1.015 of the values 101 and 102 goes to 1.01 or to 1.02 with it.\<close>

lemma round2_halfway:
  "round2 half_up (203 / 200) = (if half_up (203 / 200) then 51 / 50 else 101 / 100)"
proof -
  have "\<lfloor>203 / 2 :: rat\<rfloor> = 101" by (rule floor_unique) simp_all
  then show ?thesis by (simp add: round2_def Let_def)
qed

lemma round2_values:
  "round2 half_up 10 = 10" "round2 half_up (45 / 4) = 45 / 4" "round2 half_up (25 / 2) = 25 / 2"
  by (simp_all add: round2_def Let_def)

lemma scenario_overall:
  "overall_row half_up scenario_records = \<lparr>Date = Overall, PM2_5_Average = Num 10, PM2_5_Median = Num 10\<rparr>"
  by (simp add: overall_row_def scenario_records_def sample_def column_pm2_5_def
      List.map_filter_simps mean_def median_def cell_of_def cell_map_def round2_values Let_def)

lemma scenario_late_overall:
  "overall_row half_up (scenario_records @ [late_record]) =
     \<lparr>Date = Overall, PM2_5_Average = Num (45 / 4), PM2_5_Median = Num (25 / 2)\<rparr>"
  by (simp add: overall_row_def scenario_records_def late_record_def sample_def column_pm2_5_def
      List.map_filter_simps mean_def median_def cell_of_def cell_map_def round2_values Let_def)


text \<open>The daily rows of the specification's scenario: 10.00 and 10.00 on 2022-04-01,
  missing on 2022-04-02, 10.00 and 10.00 on 2022-04-03.\<close>

lemma scenario_daily:
  "map (\<lambda>d. shown half_up (day_row scenario_records d)) [19083, 19084, 19085] =
     [\<lparr>Date = Day 19083, PM2_5_Average = Num 10, PM2_5_Median = Num 10\<rparr>,
      \<lparr>Date = Day 19084, PM2_5_Average = Missing, PM2_5_Median = Missing\<rparr>,
      \<lparr>Date = Day 19085, PM2_5_Average = Num 10, PM2_5_Median = Num 10\<rparr>]"
  by (simp add: shown_def day_row_def on_stats_def scenario_records_def day_of_samples
      column_pm2_5_def List.map_filter_simps mean_def median_def cell_of_def cell_map_def
      fillna_missing_def round2_values Let_def)
    (simp add: sample_def round2_values)

theorem missing_days_marked_witness:
  "snd highfive_area = Shapes (everywhere # [])
   \<and> col_pm2_5 (normalize_records scenario_records)
   \<and> rows (within_polygon (normalize_records scenario_records) everywhere) \<noteq> []
   \<and> parse_date ''2022-04-01'' = Some 19083 \<and> parse_date ''2022-04-03'' = Some 19085
   \<and> (19083 :: int) \<le> 19084 \<and> (19084 :: int) \<le> 19085
   \<and> filter (\<lambda>r. day_of r = 19084)
         (rows (within_polygon (normalize_records scenario_records) everywhere)) = []
   \<and> (\<exists>tbl st'.
         process_location to_even (normalize_records scenario_records) ''2022-04-01'' ''2022-04-03''
           highfive_area (initial_state Map.empty) = (None, st')
       \<and> all_stats_sections st' = [(''highfive_area (2022-04-01 to 2022-04-03)'', tbl)]
       \<and> tbl ! 1 = \<lparr>Date = Day 19084, PM2_5_Average = Missing, PM2_5_Median = Missing\<rparr>
       \<and> last tbl = \<lparr>Date = Overall, PM2_5_Average = Num 10, PM2_5_Median = Num 10\<rparr>)"
proof -
  have b: "col_pm2_5 (normalize_records scenario_records)"
    by (simp add: normalize_scenario)
  have c: "rows (within_polygon (normalize_records scenario_records) everywhere) \<noteq> []"
    by (simp add: normalize_scenario) (simp add: scenario_records_def)
  have f: "(19083 :: int) \<le> 19084" and g: "(19084 :: int) \<le> 19085" by simp_all
  have h: "\<forall>r \<in> set (rows (within_polygon (normalize_records scenario_records) everywhere)).
         day_of r \<noteq> 19084"
    by (simp add: normalize_scenario) (simp add: scenario_records_def day_of_samples)
  from missing_days_marked [OF scenario_facts(1) b c scenario_facts(3,4) f g h,
      of to_even "initial_state Map.empty"]
  show ?thesis using b c h scenario_facts(1,3,4)
    by (simp add: scenario_facts(2) section_label_def initial_state_def normalize_scenario
        scenario_overall filter_empty_conv) blast
qed

theorem out_of_window_records_in_overall_witness:
  "snd highfive_area = Shapes (everywhere # [])
   \<and> col_pm2_5 (normalize_records (scenario_records @ [late_record]))
   \<and> parse_date ''2022-04-01'' = Some 19083 \<and> parse_date ''2022-04-03'' = Some 19085
   \<and> late_record \<in> set (rows (within_polygon (normalize_records (scenario_records @ [late_record]))
                              everywhere))
   \<and> (19085 :: int) < day_of late_record
   \<and> pm2_5 late_record = Some 1500
   \<and> (\<exists>tbl st'.
         process_location to_even (normalize_records (scenario_records @ [late_record]))
           ''2022-04-01'' ''2022-04-03'' highfive_area (initial_state Map.empty) = (None, st')
       \<and> all_stats_sections st' = [(''highfive_area (2022-04-01 to 2022-04-03)'', tbl)]
       \<and> Day 19092 \<notin> set (map Date tbl)
       \<and> last tbl = \<lparr>Date = Overall, PM2_5_Average = Num (45 / 4), PM2_5_Median = Num (25 / 2)\<rparr>)
   \<and> overall_row to_even scenario_records =
        \<lparr>Date = Overall, PM2_5_Average = Num 10, PM2_5_Median = Num 10\<rparr>"
proof -
  let ?rs = "scenario_records @ [late_record]"
  have b: "col_pm2_5 (normalize_records ?rs)" by (simp add: normalize_scenario)
  have m: "late_record \<in> set (rows (within_polygon (normalize_records ?rs) everywhere))"
    by (simp add: normalize_scenario)
  have d: "day_of late_record = 19092" by (simp add: late_record_def day_of_samples)
  then have o: "day_of late_record < 19083 \<or> 19085 < day_of late_record" by simp
  have v: "pm2_5 late_record = Some 1500" by (simp add: late_record_def sample_def)
  from out_of_window_records_in_overall [OF scenario_facts(1) b scenario_facts(3,4) m o v,
      of to_even "initial_state Map.empty"]
  show ?thesis using b m v scenario_facts(1,3,4)
    by (simp add: d scenario_facts(2) section_label_def initial_state_def normalize_scenario
        scenario_late_overall scenario_overall) blast
qed


section \<open>Errors in the statistics blocks\<close>

text \<open>One pass of the loop over locations on a frame without a pm2_5 column: both
  statistics blocks raise and are caught, and \<^verbatim>\<open>pd.concat\<close> reads the variables as
  an earlier pass left them, or raises when they are not bound.\<close>

lemma process_location_stale:
  assumes "snd loc = Shapes (polygon # others)"
    and "\<not> col_pm2_5 gdf"
    and "rows (within_polygon gdf polygon) \<noteq> []"
    and "daily_stats st = Some daily" and "overall_stats st = Some overall"
  shows "process_location half_up gdf start_date end_date loc st =
     (None, st\<lparr>all_stats_sections := all_stats_sections st @
                   [(section_label (fst loc) start_date end_date, daily @ overall)]\<rparr>)"
  using assms
  by (simp add: process_location_def df_empty_def daily_stats_block_def overall_stats_block_def
      save_block_def Let_def)

lemma process_location_unbound:
  assumes "snd loc = Shapes (polygon # others)"
    and "\<not> col_pm2_5 gdf"
    and "rows (within_polygon gdf polygon) \<noteq> []"
    and "daily_stats st = None"
  shows "process_location half_up gdf start_date end_date loc st = (Some NameError, st)"
  using assms
  by (simp add: process_location_def df_empty_def daily_stats_block_def overall_stats_block_def
      Let_def)

lemma more_dates:
  "parse_date ''2022-05-31'' = Some 19143"
  by (simp_all add: parse_date_def digit_def days_in_month_def days_from_civil_def is_leap_def)

lemma earlier_cache_files:
  "earlier_cache (cache_file_path ''2022-04-01'' ''2022-05-31'') = Some (JsonRecords [current_record])"
  "earlier_cache (cache_file_path ''2023-04-01'' ''2023-05-31'') = Some (JsonRecords [bare_record])"
  "earlier_cache (cache_file_path ''2024-04-01'' ''2024-05-31'') = Some (JsonRecords [])"
  by (simp_all add: earlier_cache_def cache_file_path_def)

lemma normalize_earlier:
  "normalize_records [current_record] =
     \<lparr>col_pm2_5 = True, col_version_major = True, rows = [current_record]\<rparr>"
  "normalize_records [bare_record] =
     \<lparr>col_pm2_5 = False, col_version_major = True, rows = [bare_record]\<rparr>"
  "normalize_records [] = \<lparr>col_pm2_5 = False, col_version_major = False, rows = []\<rparr>"
  by (simp_all add: normalize_records_def scale_correction_def range_filter_def DataFrame_def
      df_empty_def in_range_def times_100_def current_record_def bare_record_def sample_def)

lemma files_save_block [simp]:
  "files (save_block g n s e st) = files st"
  "daily_stats (save_block g n s e st) = daily_stats st"
  "overall_stats (save_block g n s e st) = overall_stats st"
  by (simp_all add: save_block_def)

text \<open>The run over the script's date ranges on the cache files of the earlier run: the
  windows of 2022 and 2023 each get a section, both with the table of 2022, and one
  extract is written.\<close>

lemma earlier_cache_run:
  "\<exists>st'.
     run_windows half_up empty_source [highfive_area] date_ranges (initial_state earlier_cache) = Some st'
     \<and> all_stats_sections st' =
         [(''highfive_area (2022-04-01 to 2022-05-31)'',
           map (\<lambda>d. shown half_up (day_row [current_record] d)) [19083..19143]
             @ [overall_row half_up [current_record]]),
          (''highfive_area (2023-04-01 to 2023-05-31)'',
           map (\<lambda>d. shown half_up (day_row [current_record] d)) [19083..19143]
             @ [overall_row half_up [current_record]])]
     \<and> map fst (csv_files st') = [''data3/highfive_area_data_2022-04-01_to_2022-05-31.csv'']"
proof -
  define daily where "daily = map (\<lambda>d. shown half_up (day_row [current_record] d)) [19083..19143]"
  define overall where "overall = [overall_row half_up [current_record]]"
  define st0 where "st0 = initial_state earlier_cache"
  let ?l1 = "section_label ''highfive_area'' ''2022-04-01'' ''2022-05-31''"
  let ?l2 = "section_label ''highfive_area'' ''2023-04-01'' ''2023-05-31''"
  let ?g1 = "\<lparr>col_pm2_5 = True, col_version_major = True, rows = [current_record]\<rparr>"
  let ?g2 = "\<lparr>col_pm2_5 = False, col_version_major = True, rows = [bare_record]\<rparr>"
  define st1 where "st1 = save_block ?g1 ''highfive_area'' ''2022-04-01'' ''2022-05-31''
        (st0\<lparr>daily_stats := Some daily, overall_stats := Some overall,
              all_stats_sections := [(?l1, daily @ overall)]\<rparr>)"
  define st2 where "st2 = st1\<lparr>all_stats_sections := [(?l1, daily @ overall), (?l2, daily @ overall)]\<rparr>"
  have f0: "files st0 = earlier_cache" "all_stats_sections st0 = []" "csv_files st0 = []"
    by (simp_all add: st0_def initial_state_def)
  have f1: "files st1 = earlier_cache" "all_stats_sections st1 = [(?l1, daily @ overall)]"
    "daily_stats st1 = Some daily" "overall_stats st1 = Some overall"
    by (simp_all add: st1_def f0)
  have f2: "files st2 = earlier_cache" by (simp add: st2_def f1)
  have a2: "col_pm2_5 ?g1" and a3: "rows (within_polygon ?g1 everywhere) \<noteq> []"
    and b2: "\<not> col_pm2_5 ?g2" and b3: "rows (within_polygon ?g2 everywhere) \<noteq> []"
    by simp_all
  have p1: "process_location half_up ?g1 ''2022-04-01'' ''2022-05-31'' highfive_area st0 = (None, st1)"
    using process_location_fresh [OF scenario_facts(1) a2 a3 scenario_facts(3) more_dates, of half_up st0]
    by (simp only: st1_def daily_def overall_def within_everywhere scenario_facts(2) f0 append_Nil
        dataframe.select_convs)
  have p2: "process_location half_up ?g2 ''2023-04-01'' ''2023-05-31'' highfive_area st1 = (None, st2)"
    using process_location_stale [OF scenario_facts(1) b2 b3 f1(3,4),
        of half_up "''2023-04-01''" "''2023-05-31''"]
    by (simp only: st2_def scenario_facts(2) f1 append_Cons append_Nil)
  have h1: "files st0 (cache_file_path ''2022-04-01'' ''2022-05-31'') = Some (JsonRecords [current_record])"
    and h2: "files st1 (cache_file_path ''2023-04-01'' ''2023-05-31'') = Some (JsonRecords [bare_record])"
    and h3: "files st2 (cache_file_path ''2024-04-01'' ''2024-05-31'') = Some (JsonRecords [])"
    by (simp_all only: f0 f1 f2 earlier_cache_files)
  have w1: "process_window half_up empty_source [highfive_area] (''2022-04-01'', ''2022-05-31'') st0 = Some st1"
    using window_body_loaded [OF load_records_hit [OF h1], of half_up empty_source "[highfive_area]"] p1
    by (simp add: normalize_earlier process_window_def df_empty_def)
  have w2: "process_window half_up empty_source [highfive_area] (''2023-04-01'', ''2023-05-31'') st1 = Some st2"
    using window_body_loaded [OF load_records_hit [OF h2], of half_up empty_source "[highfive_area]"] p2
    by (simp add: normalize_earlier process_window_def df_empty_def)
  have w3: "process_window half_up empty_source [highfive_area] (''2024-04-01'', ''2024-05-31'') st2 = Some st2"
    using window_body_loaded [OF load_records_hit [OF h3], of half_up empty_source "[highfive_area]"]
    by (simp add: normalize_earlier process_window_def df_empty_def)
  have r: "run_windows half_up empty_source [highfive_area] date_ranges (initial_state earlier_cache) = Some st2"
    using w1 w2 w3 by (simp add: date_ranges_def st0_def)
  have s: "all_stats_sections st2 =
         [(''highfive_area (2022-04-01 to 2022-05-31)'', daily @ overall),
          (''highfive_area (2023-04-01 to 2023-05-31)'', daily @ overall)]"
    by (simp add: st2_def section_label_def)
  have c: "map fst (csv_files st2) = [''data3/highfive_area_data_2022-04-01_to_2022-05-31.csv'']"
    by (simp add: st2_def st1_def save_block_def f0 csv_file_path_def output_folder_def)
  note s' = s [unfolded daily_def overall_def]
  show ?thesis
    by (rule exI [of _ st2]) (intro conjI r s' c)
qed

text \<open>
  C8: an error in the statistics of one window and area should leave that unit out of the
  summary list and touch no other unit. The handlers of lines 201-203 and 219-223 print
  the error and fall through to \<^verbatim>\<open>pd.concat\<close> (the handler of lines 153-156 has the
  \<^verbatim>\<open>continue\<close> they lack). With the cache files of an earlier run in which the window of
  2023 holds a record without a pm2_5 field, both statistics blocks fail for 2023, and
  the summary list gets a section labelled 2023 that holds the table of 2022, with the
  days of 2022; no extract is written for 2023.
\<close>

theorem failed_window_gets_earlier_table:
  "\<exists>tbl st'.
     run_windows half_up empty_source [highfive_area] date_ranges (initial_state earlier_cache) = Some st'
     \<and> all_stats_sections st' =
         [(''highfive_area (2022-04-01 to 2022-05-31)'', tbl),
          (''highfive_area (2023-04-01 to 2023-05-31)'', tbl)]
     \<and> map Date tbl = map Day [19083..19143] @ [Overall]
     \<and> map fst (csv_files st') = [''data3/highfive_area_data_2022-04-01_to_2022-05-31.csv'']"
proof -
  let ?tbl = "map (\<lambda>d. shown half_up (day_row [current_record] d)) [19083..19143]
                @ [overall_row half_up [current_record]]"
  from earlier_cache_run [of half_up] obtain st' where
    all: "run_windows half_up empty_source [highfive_area] date_ranges (initial_state earlier_cache)
          = Some st'
      \<and> all_stats_sections st' =
         [(''highfive_area (2022-04-01 to 2022-05-31)'', ?tbl),
          (''highfive_area (2023-04-01 to 2023-05-31)'', ?tbl)]
      \<and> map fst (csv_files st') = [''data3/highfive_area_data_2022-04-01_to_2022-05-31.csv'']" ..
  note r = all [THEN conjunct1]
    and s = all [THEN conjunct2, THEN conjunct1]
    and c = all [THEN conjunct2, THEN conjunct2]
  have d: "map Date ?tbl = map Day [19083..19143] @ [Overall]"
    by (simp only: map_append map_map comp_def Date_shown Date_day_row list.map Date_overall_row)
  show ?thesis
    by (rule exI [of _ ?tbl], rule exI [of _ st']) (intro conjI r s d c)
qed

lemma earlier_summary_sections:
  "earlier_summary =
     [(''highfive_area (2022-04-01 to 2022-05-31)'',
       map (\<lambda>d. shown to_even (day_row [current_record] d)) [19083..19143]
         @ [overall_row to_even [current_record]]),
      (''highfive_area (2023-04-01 to 2023-05-31)'',
       map (\<lambda>d. shown to_even (day_row [current_record] d)) [19083..19143]
         @ [overall_row to_even [current_record]])]"
proof -
  from earlier_cache_run [of to_even] obtain st' where
    all: "run_windows to_even empty_source [highfive_area] date_ranges (initial_state earlier_cache)
          = Some st'
      \<and> all_stats_sections st' =
         [(''highfive_area (2022-04-01 to 2022-05-31)'',
           map (\<lambda>d. shown to_even (day_row [current_record] d)) [19083..19143]
             @ [overall_row to_even [current_record]]),
          (''highfive_area (2023-04-01 to 2023-05-31)'',
           map (\<lambda>d. shown to_even (day_row [current_record] d)) [19083..19143]
             @ [overall_row to_even [current_record]])]
      \<and> map fst (csv_files st') = [''data3/highfive_area_data_2022-04-01_to_2022-05-31.csv'']" ..
  show ?thesis
    unfolding earlier_summary_def all [THEN conjunct1] option.case
    by (rule all [THEN conjunct2, THEN conjunct1])
qed

lemma section_2023:
  "fst (earlier_summary ! 1) = ''highfive_area (2023-04-01 to 2023-05-31)''"
  "snd (earlier_summary ! 1) =
     map (\<lambda>d. shown to_even (day_row [current_record] d)) [19083..19143]
       @ [overall_row to_even [current_record]]"
  unfolding earlier_summary_sections by simp_all

lemma dates_2023:
  "parse_date ''2023-04-01'' = Some 19448" "parse_date ''2023-05-31'' = Some 19508"
  by (simp_all add: parse_date_def digit_def days_in_month_def days_from_civil_def is_leap_def)

lemma section_2023_dates:
  "map Date (snd (earlier_summary ! 1)) = map Day [19083..19143] @ [Overall]"
  unfolding section_2023
  by (simp only: map_append map_map comp_def Date_shown Date_day_row list.map Date_overall_row)

lemma bare_record_in_area:
  "rows (within_polygon (normalize_records [bare_record]) everywhere) = [bare_record]"
  by (simp add: normalize_earlier)

text \<open>
  C4 (as stated) promises, for every window and area with a record inside, a table with a
  row for each day of the window. A record set in which no record has a pm2_5 value has
  an in-area record and no statistics: for the window 2023-04-01 to 2023-05-31 with the
  one record that lacks the field, the first pass over the area ends in a NameError and
  appends no table; after the window of 2022, the section appended for 2023 has the days
  of 2022 and no row for 2023-04-01.
\<close>

theorem no_pm2_5_column_no_table_of_its_own:
  "rows (within_polygon (normalize_records [bare_record]) everywhere) = [bare_record]
   \<and> parse_date ''2023-04-01'' = Some 19448 \<and> parse_date ''2023-05-31'' = Some 19508
   \<and> process_location to_even (normalize_records [bare_record]) ''2023-04-01'' ''2023-05-31''
        highfive_area (initial_state Map.empty) = (Some NameError, initial_state Map.empty)
   \<and> fst (earlier_summary ! 1) = ''highfive_area (2023-04-01 to 2023-05-31)''
   \<and> map Date (snd (earlier_summary ! 1)) = map Day [19083..19143] @ [Overall]
   \<and> Day 19448 \<notin> set (map Date (snd (earlier_summary ! 1)))"
proof -
  have u: "process_location to_even (normalize_records [bare_record]) ''2023-04-01'' ''2023-05-31''
        highfive_area (initial_state Map.empty) = (Some NameError, initial_state Map.empty)"
    by (rule process_location_unbound [OF scenario_facts(1)])
      (simp_all add: normalize_earlier initial_state_def)
  have n: "Day 19448 \<notin> set (map Date (snd (earlier_summary ! 1)))"
    unfolding section_2023_dates by (auto simp del: upto_rec_numeral)
  from bare_record_in_area dates_2023 u section_2023(1) section_2023_dates n
  show ?thesis by (intro conjI)
qed

text \<open>
  C5 (as stated) promises the missing marker in the row of every day of a window without
  a record in the area. In the window 2023-04-01 to 2023-05-31 of the same run, no record
  of the area falls on 2023-04-02, and the section appended for the window has no row
  for that day; its overall row shows the value of the record of 2022.
\<close>

theorem no_pm2_5_column_no_row_for_empty_day:
  "parse_date ''2023-04-01'' = Some 19448 \<and> parse_date ''2023-05-31'' = Some 19508
   \<and> (19448 :: int) \<le> 19449 \<and> (19449 :: int) \<le> 19508
   \<and> filter (\<lambda>r. day_of r = 19449)
         (rows (within_polygon (normalize_records [bare_record]) everywhere)) = []
   \<and> fst (earlier_summary ! 1) = ''highfive_area (2023-04-01 to 2023-05-31)''
   \<and> filter (\<lambda>row. Date row = Day 19449) (snd (earlier_summary ! 1)) = []
   \<and> last (snd (earlier_summary ! 1)) =
        \<lparr>Date = Overall, PM2_5_Average = Num 5, PM2_5_Median = Num 5\<rparr>"
proof -
  have e: "filter (\<lambda>r. day_of r = 19449)
         (rows (within_polygon (normalize_records [bare_record]) everywhere)) = []"
    unfolding bare_record_in_area by (simp add: bare_record_def day_of_def sample_def)
  have "Day 19449 \<notin> set (map Date (snd (earlier_summary ! 1)))"
    unfolding section_2023_dates by (auto simp del: upto_rec_numeral)
  then have f: "filter (\<lambda>row. Date row = Day 19449) (snd (earlier_summary ! 1)) = []"
    by (simp only: filter_empty_conv set_map) (metis imageI)
  have r5: "round2 to_even 5 = 5" by (simp add: round2_def Let_def)
  have o: "last (snd (earlier_summary ! 1)) =
        \<lparr>Date = Overall, PM2_5_Average = Num 5, PM2_5_Median = Num 5\<rparr>"
    unfolding section_2023
    by (simp add: overall_row_def current_record_def sample_def column_pm2_5_def
        List.map_filter_simps mean_def median_def cell_of_def cell_map_def r5 Let_def)
  have i: "(19448 :: int) \<le> 19449" "(19449 :: int) \<le> 19508" by simp_all
  from dates_2023 i e section_2023(1) f o show ?thesis by (intro conjI)
qed

end
